theory Spec2Isabelle
  imports Complex_Main
begin

section \<open>Kernel ridge and kernel logistic regression (models.py)\<close>

text \<open>
  A shallow embedding of the two estimator classes of \<^verbatim>\<open>models.py\<close>.

  \<^item> A numpy array of shape \<open>(r, c)\<close> is the list of its rows. float64 arithmetic is
    idealised as arithmetic on \<open>real\<close>: rounding, overflow to \<open>inf\<close> and \<open>nan\<close> are
    outside the model. An array without rows is \<open>[]\<close> and has lost its column count;
    the theorems below are about training sets with at least one example.
  \<^item> An exception is a value of \<open>error\<close>; a method that may raise returns
    \<open>error + 'a\<close>, with \<open>Inl\<close> for the exception.
  \<^item> The attributes of \<open>self\<close> are a record; a method takes the record and returns it
    updated, also when it raises, since an assignment made before the exception stays.
  \<^item> \<open>self.Data = X\<close> stores a reference to the caller's array. The arrays the caller
    owns live in a store, and \<open>Data\<close> holds an address of it.
  \<^item> \<open>np.linalg.solve\<close> and the kernel function are code of other libraries: both are
    parameters.
\<close>

subsection \<open>Exceptions and printed lines\<close>

text \<open>
  \<open>ValueError\<close>, \<open>LinAlgError\<close>, \<open>UnboundLocalError\<close> and \<open>AttributeError\<close> are the
  exceptions numpy and Python raise under the source. \<open>ConfigError\<close> and
  \<open>NotTrainedError\<close> are named by the specification only: no line of the source raises
  them.
\<close>

datatype error =
    ValueError
  | LinAlgError
  | UnboundLocalError
  | AttributeError
  | ConfigError
  | NotTrainedError

text \<open>
  What \<open>print\<close> writes: the banner of a constructor, or the line of models.py:130,
  whose f-string interpolates \<open>max_iter\<close>.
\<close>

datatype printed =
    Banner string
  | DidNotConverge int

definition bind_result :: "error + 'a \<Rightarrow> ('a \<Rightarrow> error + 'b) \<Rightarrow> error + 'b" where
  "bind_result r f = (case r of Inl e \<Rightarrow> Inl e | Inr v \<Rightarrow> f v)"

subsection \<open>The numpy operations the source calls\<close>

type_synonym matrix = "real list list"

definition nrows :: "'a list list \<Rightarrow> nat" where
  "nrows M = length M"

definition ncols :: "'a list list \<Rightarrow> nat" where
  "ncols M = (case M of [] \<Rightarrow> 0 | r # _ \<Rightarrow> length r)"

text \<open>The array of shape \<open>(r, c)\<close> with entry \<open>g i j\<close> at \<open>[i, j]\<close>.\<close>

definition fromfunction :: "nat \<Rightarrow> nat \<Rightarrow> (nat \<Rightarrow> nat \<Rightarrow> 'a) \<Rightarrow> 'a list list" where
  "fromfunction r c g = map (\<lambda>i. map (\<lambda>j. g i j) [0..<c]) [0..<r]"

text \<open>\<open>np.eye(n)\<close>, \<open>np.zeros((r, c))\<close>, \<open>np.diag(v)\<close> of a one-dimensional \<open>v\<close>.\<close>

definition eye :: "nat \<Rightarrow> matrix" where
  "eye n = fromfunction n n (\<lambda>i j. if i = j then 1 else 0)"

definition zeros :: "nat \<Rightarrow> nat \<Rightarrow> matrix" where
  "zeros r c = fromfunction r c (\<lambda>i j. 0)"

definition diag :: "real list \<Rightarrow> matrix" where
  "diag v = fromfunction (length v) (length v) (\<lambda>i j. if i = j then v ! i else 0)"

text \<open>A scalar times an array (\<open>self.Lambda*n*I\<close>).\<close>

definition scalar_mult :: "real \<Rightarrow> matrix \<Rightarrow> matrix" where
  "scalar_mult a M = map (map (\<lambda>v. a * v)) M"

text \<open>
  \<open>A @ B\<close> on two-dimensional arrays: numpy raises \<open>ValueError\<close> unless the columns of
  \<open>A\<close> are as many as the rows of \<open>B\<close>.
\<close>

definition matmul :: "matrix \<Rightarrow> matrix \<Rightarrow> error + matrix" where
  "matmul A B =
     (if ncols A = nrows B
      then Inr (fromfunction (nrows A) (ncols B) (\<lambda>i j. \<Sum>l<ncols A. A ! i ! l * B ! l ! j))
      else Inl ValueError)"

text \<open>
  An element-wise binary operation (\<open>+\<close>, \<open>-\<close>, \<open>*\<close>) on two-dimensional arrays, with
  numpy's broadcasting: along each axis the lengths are equal or one of them is 1,
  and a length-1 axis is repeated; otherwise \<open>ValueError\<close>.
\<close>

definition broadcast_dim :: "nat \<Rightarrow> nat \<Rightarrow> nat option" where
  "broadcast_dim a b =
     (if a = b then Some a else if a = 1 then Some b else if b = 1 then Some a else None)"

definition broadcast_get :: "matrix \<Rightarrow> nat \<Rightarrow> nat \<Rightarrow> real" where
  "broadcast_get M i j = M ! (if nrows M = 1 then 0 else i) ! (if ncols M = 1 then 0 else j)"

definition elementwise :: "(real \<Rightarrow> real \<Rightarrow> real) \<Rightarrow> matrix \<Rightarrow> matrix \<Rightarrow> error + matrix" where
  "elementwise f A B =
     (case broadcast_dim (nrows A) (nrows B) of
        None \<Rightarrow> Inl ValueError
      | Some r \<Rightarrow>
          (case broadcast_dim (ncols A) (ncols B) of
             None \<Rightarrow> Inl ValueError
           | Some c \<Rightarrow> Inr (fromfunction r c (\<lambda>i j. f (broadcast_get A i j) (broadcast_get B i j)))))"

text \<open>\<open>np.linalg.norm\<close> of a two-dimensional array: the Frobenius norm.\<close>

definition norm_fro :: "matrix \<Rightarrow> real" where
  "norm_fro M = sqrt (sum_list (map (\<lambda>v. v * v) (concat M)))"

text \<open>
  The kernel function gets two arrays; at \<open>predict\<close> the second one is \<open>self.Data\<close>,
  which is \<open>None\<close> on an untrained estimator. \<open>np.linalg.solve\<close> gets the coefficient
  matrix and the right-hand side.
\<close>

type_synonym kernel_func = "matrix \<Rightarrow> matrix option \<Rightarrow> error + matrix"

type_synonym linalg_solve = "matrix \<Rightarrow> matrix \<Rightarrow> error + matrix"

type_synonym ref = nat

type_synonym store = "ref \<Rightarrow> matrix"

subsection \<open>class KernelRidgeRegression\<close>

record KernelRidgeRegression =
  Kernel :: kernel_func
  Alpha :: "matrix option"
  Data :: "ref option"
  Lambda :: real

definition KernelRidgeRegression_init ::
  "kernel_func \<Rightarrow> real \<Rightarrow> error + (KernelRidgeRegression \<times> printed list)" where
  "KernelRidgeRegression_init kernel_func Lambda' =
     Inr (\<lparr>KernelRidgeRegression.Kernel = kernel_func, Alpha = None, Data = None,
            Lambda = Lambda'\<rparr>,
          [Banner ''Kernel Ridge Regression''])"

definition KernelRidgeRegression_reset :: "KernelRidgeRegression \<Rightarrow> KernelRidgeRegression" where
  "KernelRidgeRegression_reset self =
     self\<lparr>KernelRidgeRegression.Alpha := None, KernelRidgeRegression.Data := None\<rparr>"

definition KernelRidgeRegression_train ::
  "linalg_solve \<Rightarrow> store \<Rightarrow> KernelRidgeRegression \<Rightarrow> ref \<Rightarrow> matrix
     \<Rightarrow> (error + unit) \<times> KernelRidgeRegression" where
  "KernelRidgeRegression_train solve h self X y =
     (let self = self\<lparr>KernelRidgeRegression.Data := Some X\<rparr> in
      case KernelRidgeRegression.Kernel self (h X) (Some (h X)) of
        Inl e \<Rightarrow> (Inl e, self)
      | Inr K \<Rightarrow>
          (let n = nrows K;
               I = eye n
           in case bind_result
                     (elementwise (+) K (scalar_mult (KernelRidgeRegression.Lambda self * real n) I))
                     (\<lambda>A. solve A y) of
                Inl e \<Rightarrow> (Inl e, self)
              | Inr a \<Rightarrow> (Inr (), self\<lparr>KernelRidgeRegression.Alpha := Some a\<rparr>)))"

text \<open>
  \<open>K @ self.Alpha\<close> with \<open>self.Alpha\<close> still \<open>None\<close>: numpy's \<open>matmul\<close> refuses the
  operand (it has no dimensions) with a \<open>ValueError\<close>.
\<close>

definition matmul_attr :: "matrix \<Rightarrow> matrix option \<Rightarrow> error + matrix" where
  "matmul_attr K a = (case a of None \<Rightarrow> Inl ValueError | Some a' \<Rightarrow> matmul K a')"

definition KernelRidgeRegression_predict ::
  "store \<Rightarrow> KernelRidgeRegression \<Rightarrow> matrix \<Rightarrow> (error + matrix) \<times> KernelRidgeRegression" where
  "KernelRidgeRegression_predict h self X =
     (bind_result (KernelRidgeRegression.Kernel self X (map_option h (KernelRidgeRegression.Data self)))
        (\<lambda>K. matmul_attr K (KernelRidgeRegression.Alpha self)),
      self)"

subsection \<open>class KernelLogisticRegression\<close>

record KernelLogisticRegression =
  Kernel :: kernel_func
  Alpha :: "matrix option"
  Data :: "ref option"
  Lambda :: real
  tol :: real
  max_iter :: int
  threshold :: real

definition KernelLogisticRegression_init ::
  "kernel_func \<Rightarrow> real \<Rightarrow> real \<Rightarrow> int \<Rightarrow> real
     \<Rightarrow> error + (KernelLogisticRegression \<times> printed list)" where
  "KernelLogisticRegression_init kernel_func Lambda' tol' max_iter' threshold' =
     Inr (\<lparr>Kernel = kernel_func, Alpha = None, Data = None, Lambda = Lambda', tol = tol',
            max_iter = max_iter', threshold = threshold'\<rparr>,
          [Banner ''Kernel Logistic Regression''])"

definition KernelLogisticRegression_reset ::
  "KernelLogisticRegression \<Rightarrow> KernelLogisticRegression" where
  "KernelLogisticRegression_reset self = self\<lparr>Alpha := None, Data := None\<rparr>"

text \<open>\<open>loss\<close> (models.py:93-97); \<open>s.reshape(-1)\<close> lays the rows of \<open>s\<close> end to end.\<close>

definition loss :: "matrix \<Rightarrow> matrix \<times> matrix" where
  "loss s =
     (let s = concat s;
          l1 = map (\<lambda>v. - 1 / (1 + exp v)) s;
          l2 = map (\<lambda>v. exp v / (1 + exp v) ^ 2) s
      in (diag l1, diag l2))"

text \<open>
  The body of the loop up to the computation of \<open>error\<close> (models.py:117-122): it
  returns \<open>alpha_new\<close> and \<open>error\<close>, or the exception of the first operation that
  raises.
\<close>

definition train_step ::
  "linalg_solve \<Rightarrow> real \<Rightarrow> matrix \<Rightarrow> nat \<Rightarrow> matrix \<Rightarrow> matrix \<Rightarrow> matrix
     \<Rightarrow> error + matrix \<times> real" where
  "train_step solve Lambda' K n I y alpha_old =
     bind_result (matmul K alpha_old) (\<lambda>m.
     bind_result (elementwise (*) y m) (\<lambda>s.
     case loss s of (P, W) \<Rightarrow>
     bind_result (matmul W m) (\<lambda>Wm.
     bind_result (matmul P y) (\<lambda>Py.
     bind_result (elementwise (-) Wm Py) (\<lambda>z.
     bind_result (matmul W K) (\<lambda>WK.
     bind_result (elementwise (+) WK (scalar_mult (Lambda' * real n) I)) (\<lambda>A.
     bind_result (solve A z) (\<lambda>alpha_new.
     bind_result (elementwise (-) alpha_new alpha_old) (\<lambda>d.
     Inr (alpha_new, norm_fro d))))))))))"

text \<open>\<open>range(self.max_iter)\<close>: empty when \<open>max_iter\<close> is not positive.\<close>

definition py_range :: "int \<Rightarrow> int list" where
  "py_range n = map int [0..<nat n]"

text \<open>
  The \<open>for\<close> loop (models.py:116-127) over the remaining values of \<open>step\<close>. The last
  argument holds the local variables \<open>step\<close>, \<open>alpha_new\<close> and \<open>error\<close> as the
  iterations so far have left them: \<open>None\<close> while no iteration has run, when Python has
  not bound them yet. \<open>break\<close> returns at once; the \<open>else\<close> branch sets \<open>alpha_old\<close>.
\<close>

fun train_loop ::
  "(matrix \<Rightarrow> error + matrix \<times> real) \<Rightarrow> real \<Rightarrow> int list \<Rightarrow> matrix
     \<Rightarrow> (int \<times> matrix \<times> real) option \<Rightarrow> error + (int \<times> matrix \<times> real) option" where
  "train_loop body tol' [] alpha_old bound = Inr bound"
| "train_loop body tol' (step # steps) alpha_old bound =
     (case body alpha_old of
        Inl e \<Rightarrow> Inl e
      | Inr (alpha_new, err) \<Rightarrow>
          if err < tol' then Inr (Some (step, alpha_new, err))
          else train_loop body tol' steps alpha_new (Some (step, alpha_new, err)))"

text \<open>
  \<open>train\<close> (models.py:99-132). After a loop that never ran, the test of models.py:129
  reads the unbound \<open>step\<close> and Python raises \<open>UnboundLocalError\<close>.
\<close>

definition KernelLogisticRegression_train ::
  "linalg_solve \<Rightarrow> store \<Rightarrow> KernelLogisticRegression \<Rightarrow> ref \<Rightarrow> matrix
     \<Rightarrow> (error + unit) \<times> printed list \<times> KernelLogisticRegression" where
  "KernelLogisticRegression_train solve h self X y =
     (let self = self\<lparr>Data := Some X\<rparr> in
      case Kernel self (h X) (Some (h X)) of
        Inl e \<Rightarrow> (Inl e, [], self)
      | Inr K \<Rightarrow>
          (let n = nrows K;
               I = eye n;
               alpha_old = zeros n 1
           in case train_loop (train_step solve (Lambda self) K n I y) (tol self)
                     (py_range (max_iter self)) alpha_old None of
                Inl e \<Rightarrow> (Inl e, [], self)
              | Inr None \<Rightarrow> (Inl UnboundLocalError, [], self)
              | Inr (Some (step, alpha_new, err)) \<Rightarrow>
                  (Inr (),
                   if step = max_iter self - 1 \<and> err > tol self
                   then [DidNotConverge (max_iter self)] else [],
                   self\<lparr>Alpha := Some alpha_new\<rparr>)))"

text \<open>
  \<open>predict\<close> (models.py:134-150): \<open>(p > threshold).astype(int)\<close> is 1 or 0, and the
  result is \<open>2*y - 1\<close>, an array of integers.
\<close>

definition KernelLogisticRegression_predict ::
  "store \<Rightarrow> KernelLogisticRegression \<Rightarrow> matrix
     \<Rightarrow> (error + int list list) \<times> KernelLogisticRegression" where
  "KernelLogisticRegression_predict h self X =
     (bind_result (Kernel self X (map_option h (Data self))) (\<lambda>K.
      bind_result (matmul_attr K (Alpha self)) (\<lambda>f.
        let p = map (map (\<lambda>v. 1 / (1 + exp (- v)))) f;
            y = map (map (\<lambda>v. if v > threshold self then 1 else 0)) p
        in Inr (map (map (\<lambda>v. 2 * v - 1)) y))),
      self)"

subsection \<open>Shapes and the contracts of the two parameters\<close>

text \<open>\<open>M\<close> is a well-formed array of shape \<open>(r, c)\<close>.\<close>

definition has_shape :: "'a list list \<Rightarrow> nat \<Rightarrow> nat \<Rightarrow> bool" where
  "has_shape M r c \<longleftrightarrow> length M = r \<and> list_all (\<lambda>row. length row = c) M"

text \<open>
  What numpy documents for \<open>np.linalg.solve(A, b)\<close>: a result \<open>x\<close> has the shape of
  \<open>b\<close> and \<open>A @ x\<close> is \<open>b\<close> (exactly, in the arithmetic of this model).
\<close>

definition solve_sound :: "linalg_solve \<Rightarrow> bool" where
  "solve_sound solve \<longleftrightarrow>
     (\<forall>A b x. solve A b = Inr x \<longrightarrow> has_shape x (nrows b) (ncols b) \<and> matmul A x = Inr b)"

text \<open>
  The kernel contract of the docstrings (models.py:10-11): for \<open>X_1\<close> with \<open>n_1\<close> rows
  and \<open>X_2\<close> with \<open>n_2\<close> rows the Gram matrix has shape \<open>(n_1, n_2)\<close>.
\<close>

definition kernel_contract :: "kernel_func \<Rightarrow> bool" where
  "kernel_contract k \<longleftrightarrow>
     (\<forall>X1 X2 K. k X1 (Some X2) = Inr K \<longrightarrow> has_shape K (nrows X1) (nrows X2))"

subsection \<open>The linear systems, as the specification writes them\<close>

text \<open>
  \<open>(K + Lambda\<cdot>n\<cdot>I)\<cdot>Alpha = y\<close> with \<open>I\<close> the \<open>n\<times>n\<close> identity, row by row; \<open>K\<close>,
  \<open>Alpha\<close> and \<open>y\<close> are given by their entries.
\<close>

definition ridge_system ::
  "nat \<Rightarrow> (nat \<Rightarrow> nat \<Rightarrow> real) \<Rightarrow> real \<Rightarrow> (nat \<Rightarrow> real) \<Rightarrow> (nat \<Rightarrow> real) \<Rightarrow> bool" where
  "ridge_system n K lam \<alpha> y \<longleftrightarrow>
     (\<forall>i<n. (\<Sum>j<n. (K i j + lam * real n * (if i = j then 1 else 0)) * \<alpha> j) = y i)"

subsection \<open>A kernel and a solver to run the estimators on\<close>

text \<open>
  Neither is part of models.py. \<open>linear_kernel\<close> is \<open>lambda X1, X2: X1 @ X2.T\<close>: on
  \<open>None\<close> the attribute \<open>T\<close> is missing, and the product needs rows of equal length.
  \<open>small_solve\<close> solves systems of one and of two equations by Cramer's rule and
  refuses every other one.
\<close>

definition linear_kernel :: kernel_func where
  "linear_kernel X1 X2 =
     (case X2 of
        None \<Rightarrow> Inl AttributeError
      | Some X2' \<Rightarrow>
          if ncols X1 = ncols X2'
          then Inr (fromfunction (nrows X1) (nrows X2')
                      (\<lambda>i j. \<Sum>l<ncols X1. X1 ! i ! l * X2' ! j ! l))
          else Inl ValueError)"

definition small_solve :: linalg_solve where
  "small_solve A b =
     (if has_shape A 1 1 \<and> has_shape b 1 1
      then (if A ! 0 ! 0 = 0 then Inl LinAlgError else Inr [[b ! 0 ! 0 / A ! 0 ! 0]])
      else if has_shape A 2 2 \<and> has_shape b 2 1
      then (let det = A ! 0 ! 0 * A ! 1 ! 1 - A ! 0 ! 1 * A ! 1 ! 0
            in if det = 0 then Inl LinAlgError
               else Inr [[(b ! 0 ! 0 * A ! 1 ! 1 - A ! 0 ! 1 * b ! 1 ! 0) / det],
                         [(A ! 0 ! 0 * b ! 1 ! 0 - b ! 0 ! 0 * A ! 1 ! 0) / det]])
      else Inl LinAlgError)"

text \<open>
  \<open>A\<close> is an invertible \<open>n\<times>n\<close> matrix. Beyond soundness, \<open>np.linalg.solve\<close> raises
  \<open>LinAlgError\<close> for a singular matrix only: it returns a solution of every invertible
  system of \<open>n\<close> equations with a column as right-hand side.
\<close>

definition invertible :: "nat \<Rightarrow> matrix \<Rightarrow> bool" where
  "invertible n A \<longleftrightarrow>
     (\<exists>J. has_shape J n n \<and> matmul J A = Inr (eye n) \<and> matmul A J = Inr (eye n))"

definition solve_complete :: "nat \<Rightarrow> linalg_solve \<Rightarrow> bool" where
  "solve_complete n solve \<longleftrightarrow>
     (\<forall>A b. has_shape A n n \<and> has_shape b n 1 \<and> invertible n A \<longrightarrow> (\<exists>x. solve A b = Inr x))"

subsection \<open>The Newton iteration, as the specification writes it\<close>













subsection \<open>The life cycle of an estimator\<close>

text \<open>
  An estimator that has never been trained successfully since its construction or
  its last \<open>reset\<close>: it is fresh from the constructor or from \<open>reset\<close>, or it was in
  such a state before a \<open>train\<close> that raised or before a \<open>predict\<close>.
\<close>

inductive ridge_untrained :: "KernelRidgeRegression \<Rightarrow> bool" where
  constructed: "KernelRidgeRegression_init k lam = Inr (self, out) \<Longrightarrow> ridge_untrained self"
| after_reset: "ridge_untrained (KernelRidgeRegression_reset self)"
| failed_train: "ridge_untrained self \<Longrightarrow>
     KernelRidgeRegression_train solve h self X y = (Inl e, self') \<Longrightarrow> ridge_untrained self'"
| after_predict: "ridge_untrained self \<Longrightarrow>
     KernelRidgeRegression_predict h self X = (r, self') \<Longrightarrow> ridge_untrained self'"

inductive logistic_untrained :: "KernelLogisticRegression \<Rightarrow> bool" where
  constructed: "KernelLogisticRegression_init k lam t m th = Inr (self, out) \<Longrightarrow>
     logistic_untrained self"
| after_reset: "logistic_untrained (KernelLogisticRegression_reset self)"
| failed_train: "logistic_untrained self \<Longrightarrow>
     KernelLogisticRegression_train solve h self X y = (Inl e, out, self') \<Longrightarrow>
     logistic_untrained self'"
| after_predict: "logistic_untrained self \<Longrightarrow>
     KernelLogisticRegression_predict h self X = (r, self') \<Longrightarrow> logistic_untrained self'"

text \<open>The configuration: the attributes that the constructor takes as arguments.\<close>

definition ridge_config :: "KernelRidgeRegression \<Rightarrow> kernel_func \<times> real" where
  "ridge_config self = (KernelRidgeRegression.Kernel self, KernelRidgeRegression.Lambda self)"

definition logistic_config ::
  "KernelLogisticRegression \<Rightarrow> kernel_func \<times> real \<times> real \<times> int \<times> real" where
  "logistic_config self = (Kernel self, Lambda self, tol self, max_iter self, threshold self)"

text \<open>
  A call of a public method, the state it leaves, and a sequence of calls, each
  with the store as it is when the call is made.
\<close>

datatype call = Train ref matrix | Predict matrix | Reset

definition ridge_call ::
  "linalg_solve \<Rightarrow> store \<Rightarrow> call \<Rightarrow> KernelRidgeRegression \<Rightarrow> KernelRidgeRegression" where
  "ridge_call solve h c self =
     (case c of
        Train X y \<Rightarrow> snd (KernelRidgeRegression_train solve h self X y)
      | Predict X \<Rightarrow> snd (KernelRidgeRegression_predict h self X)
      | Reset \<Rightarrow> KernelRidgeRegression_reset self)"

definition logistic_call ::
  "linalg_solve \<Rightarrow> store \<Rightarrow> call \<Rightarrow> KernelLogisticRegression \<Rightarrow> KernelLogisticRegression" where
  "logistic_call solve h c self =
     (case c of
        Train X y \<Rightarrow> snd (snd (KernelLogisticRegression_train solve h self X y))
      | Predict X \<Rightarrow> snd (KernelLogisticRegression_predict h self X)
      | Reset \<Rightarrow> KernelLogisticRegression_reset self)"

fun ridge_calls ::
  "linalg_solve \<Rightarrow> (store \<times> call) list \<Rightarrow> KernelRidgeRegression \<Rightarrow> KernelRidgeRegression" where
  "ridge_calls solve [] self = self"
| "ridge_calls solve ((h, c) # cs) self = ridge_calls solve cs (ridge_call solve h c self)"

fun logistic_calls ::
  "linalg_solve \<Rightarrow> (store \<times> call) list \<Rightarrow> KernelLogisticRegression
     \<Rightarrow> KernelLogisticRegression" where
  "logistic_calls solve [] self = self"
| "logistic_calls solve ((h, c) # cs) self = logistic_calls solve cs (logistic_call solve h c self)"

text \<open>
  A store for the runs below: address 0 holds the array \<open>[[2]]\<close>, every other
  address \<open>[[0]]\<close>.
\<close>

definition example_store :: store where
  "example_store r = (if r = 0 then [[2]] else [[0]])"

section \<open>Arrays of a known shape\<close>

lemma has_shape_fromfunction: "has_shape (fromfunction r c g) r c"
  by (simp add: has_shape_def fromfunction_def list_all_iff)

lemma fromfunction_nth: "i < r \<Longrightarrow> j < c \<Longrightarrow> fromfunction r c g ! i ! j = g i j"
  by (simp add: fromfunction_def)

lemma has_shape_nrows: "has_shape M r c \<Longrightarrow> nrows M = r"
  by (simp add: has_shape_def nrows_def)

lemma has_shape_ncols: "has_shape M r c \<Longrightarrow> 0 < r \<Longrightarrow> ncols M = c"
  by (cases M) (simp_all add: has_shape_def ncols_def)

lemma fromfunction_cong:
  "(\<And>i j. i < r \<Longrightarrow> j < c \<Longrightarrow> f i j = g i j) \<Longrightarrow> fromfunction r c f = fromfunction r c g"
  by (simp add: fromfunction_def)

lemma has_shape_eq: "has_shape M r c \<Longrightarrow> M = fromfunction r c (\<lambda>i j. M ! i ! j)"
  unfolding fromfunction_def
  by (rule nth_equalityI) (auto simp: has_shape_def list_all_length intro!: nth_equalityI)

lemma matmul_shape:
  assumes "has_shape A r k" "has_shape B k c" "0 < r" "0 < k"
  shows "matmul A B = Inr (fromfunction r c (\<lambda>i j. \<Sum>l<k. A ! i ! l * B ! l ! j))"
  using assms by (simp add: matmul_def has_shape_nrows has_shape_ncols)

lemma elementwise_shape:
  assumes "has_shape A r c" "has_shape B r c" "0 < r"
  shows "elementwise f A B = Inr (fromfunction r c (\<lambda>i j. f (A ! i ! j) (B ! i ! j)))"
proof -
  have "fromfunction r c (\<lambda>i j. f (broadcast_get A i j) (broadcast_get B i j))
      = fromfunction r c (\<lambda>i j. f (A ! i ! j) (B ! i ! j))"
    using assms
    by (intro fromfunction_cong) (auto simp: broadcast_get_def has_shape_nrows has_shape_ncols)
  then show ?thesis
    using assms by (simp add: elementwise_def broadcast_dim_def has_shape_nrows has_shape_ncols)
qed

lemma scalar_mult_shape:
  "has_shape M r c \<Longrightarrow> scalar_mult a M = fromfunction r c (\<lambda>i j. a * M ! i ! j)"
  unfolding fromfunction_def scalar_mult_def
  by (rule nth_equalityI) (auto simp: has_shape_def list_all_length intro!: nth_equalityI)

lemma has_shape_eye: "has_shape (eye n) n n"
  by (simp add: eye_def has_shape_fromfunction)

text \<open>The coefficient matrix \<open>M + c*I\<close> of both estimators, entry by entry.\<close>

lemma regularised_matrix:
  assumes "has_shape M n n" "0 < n"
  shows "elementwise (+) M (scalar_mult c (eye n))
       = Inr (fromfunction n n (\<lambda>i j. M ! i ! j + c * (if i = j then 1 else 0)))"
proof -
  have "fromfunction n n (\<lambda>i j. c * eye n ! i ! j)
      = fromfunction n n (\<lambda>i j. c * (if i = j then 1 else 0))"
    by (rule fromfunction_cong) (simp add: eye_def fromfunction_nth)
  then have e: "scalar_mult c (eye n) = fromfunction n n (\<lambda>i j. c * (if i = j then 1 else 0))"
    by (simp add: scalar_mult_shape [OF has_shape_eye])
  have "fromfunction n n
          (\<lambda>i j. M ! i ! j + fromfunction n n (\<lambda>i j. c * (if i = j then 1 else 0)) ! i ! j)
      = fromfunction n n (\<lambda>i j. M ! i ! j + c * (if i = j then 1 else 0))"
    by (rule fromfunction_cong) (simp add: fromfunction_nth)
  then show ?thesis
    using assms by (simp add: e elementwise_shape [OF _ has_shape_fromfunction])
qed

text \<open>What a sound solver returns for a coefficient matrix given by its entries.\<close>

lemma solve_sound_entries:
  assumes "solve_sound solve" "solve (fromfunction n n g) b = Inr x" "has_shape b n c" "0 < n"
  shows "has_shape x n c \<and> (\<forall>i<n. \<forall>j<c. (\<Sum>l<n. g i l * x ! l ! j) = b ! i ! j)"
proof -
  from assms(1,2)
  have "has_shape x (nrows b) (ncols b) \<and> matmul (fromfunction n n g) x = Inr b"
    unfolding solve_sound_def by blast
  with assms(3,4) have x: "has_shape x n c" and m: "matmul (fromfunction n n g) x = Inr b"
    by (simp_all add: has_shape_nrows has_shape_ncols)
  from m have "b = fromfunction n c (\<lambda>i j. \<Sum>l<n. fromfunction n n g ! i ! l * x ! l ! j)"
    using matmul_shape [OF has_shape_fromfunction x \<open>0 < n\<close> \<open>0 < n\<close>, of g] by simp
  then have "b ! i ! j = (\<Sum>l<n. g i l * x ! l ! j)" if "i < n" "j < c" for i j
    using that by (simp add: fromfunction_nth)
  with x show ?thesis by simp
qed

section \<open>The example kernel and solver meet their contracts\<close>

lemma kernel_contract_linear: "kernel_contract linear_kernel"
  by (auto simp: kernel_contract_def linear_kernel_def has_shape_fromfunction split: if_splits)

lemma shape_1_1: "has_shape M (Suc 0) (Suc 0) \<Longrightarrow> M = [[M ! 0 ! 0]]"
  using has_shape_eq [of M 1 1] by (simp add: fromfunction_def)

lemma shape_2_1: "has_shape M 2 (Suc 0) \<Longrightarrow> M = [[M ! 0 ! 0], [M ! 1 ! 0]]"
  using has_shape_eq [of M 2 1] by (simp add: fromfunction_def upt_rec)

lemma shape_2_2: "has_shape M 2 2 \<Longrightarrow> M = [[M ! 0 ! 0, M ! 0 ! 1], [M ! 1 ! 0, M ! 1 ! 1]]"
  using has_shape_eq [of M 2 2] by (simp add: fromfunction_def upt_rec)

lemma matmul_1_1: "matmul [[a]] [[x]] = Inr [[a * x]]"
  by (simp add: matmul_def nrows_def ncols_def fromfunction_def)

lemma matmul_2_2: "matmul [[a, b], [c, d]] [[x], [y]] = Inr [[a * x + b * y], [c * x + d * y]]"
  by (simp add: matmul_def nrows_def ncols_def fromfunction_def upt_rec lessThan_Suc
        numeral_2_eq_2)

lemma small_solve_sound: "solve_sound small_solve"
  unfolding solve_sound_def
proof (intro allI impI)
  fix A b x
  assume s: "small_solve A b = Inr x"
  consider (one) "has_shape A 1 1" "has_shape b 1 1"
    | (two) "\<not> (has_shape A 1 1 \<and> has_shape b 1 1)" "has_shape A 2 2" "has_shape b 2 1"
    using s by (auto simp: small_solve_def split: if_splits)
  then show "has_shape x (nrows b) (ncols b) \<and> matmul A x = Inr b"
  proof cases
    case one
    then obtain a v where A: "A = [[a]]" and b: "b = [[v]]"
      using shape_1_1 [of A] shape_1_1 [of b] by auto
    with s one show ?thesis
      by (auto simp: small_solve_def matmul_1_1 has_shape_def nrows_def ncols_def
            split: if_splits)
  next
    case two
    then obtain a b' c d e f where A: "A = [[a, b'], [c, d]]" and b: "b = [[e], [f]]"
      using shape_2_2 [of A] shape_2_1 [of b] by auto
    let ?D = "a * d - b' * c"
    from s two have det: "?D \<noteq> 0"
      and x: "x = [[(e * d - b' * f) / ?D], [(a * f - e * c) / ?D]]"
      by (auto simp: small_solve_def A b Let_def split: if_splits)
    have "a * ((e * d - b' * f) / ?D) + b' * ((a * f - e * c) / ?D) = (e * ?D) / ?D"
      by (simp add: add_divide_distrib [symmetric] algebra_simps)
    then have 1: "a * ((e * d - b' * f) / ?D) + b' * ((a * f - e * c) / ?D) = e"
      using det by simp
    have "c * ((e * d - b' * f) / ?D) + d * ((a * f - e * c) / ?D) = (f * ?D) / ?D"
      by (simp add: add_divide_distrib [symmetric] algebra_simps)
    then have 2: "c * ((e * d - b' * f) / ?D) + d * ((a * f - e * c) / ?D) = f"
      using det by simp
    show ?thesis
      using 1 2 by (simp add: x A b matmul_2_2 has_shape_def nrows_def ncols_def)
  qed
qed

text \<open>The definitions a run on concrete arrays unfolds.\<close>

lemma norm_fro_1: "norm_fro [[v]] = \<bar>v\<bar>"
  by (simp add: norm_fro_def)

lemma norm_fro_2: "norm_fro [[u], [v]] = sqrt (u * u + v * v)"
  by (simp add: norm_fro_def)

lemmas run_defs = has_shape_def nrows_def ncols_def fromfunction_def eye_def zeros_def
  diag_def scalar_mult_def matmul_def elementwise_def broadcast_dim_def broadcast_get_def
  norm_fro_1 norm_fro_2 bind_result_def matmul_attr_def linear_kernel_def small_solve_def
  upt_rec lessThan_Suc numeral_2_eq_2 loss_def train_step_def py_range_def example_store_def

section \<open>Kernel ridge regression: what train stores\<close>

text \<open>
  A run used below: two examples \<open>[[1], [2]]\<close> held at address 0, targets
  \<open>[[2], [5]]\<close>, the linear kernel and \<open>Lambda = 1/2\<close>. The coefficient matrix is
  \<open>[[2, 2], [2, 5]]\<close> and \<open>Alpha\<close> is \<open>[[0], [1]]\<close>.
\<close>

lemma ridge_example_run:
  "KernelRidgeRegression_train small_solve (\<lambda>r. [[1], [2]])
     \<lparr>KernelRidgeRegression.Kernel = linear_kernel, Alpha = None, Data = None, Lambda = 1 / 2\<rparr>
     0 [[2], [5]]
   = (Inr (), \<lparr>KernelRidgeRegression.Kernel = linear_kernel, Alpha = Some [[0], [1]],
               Data = Some 0, Lambda = 1 / 2\<rparr>)"
  by (simp add: KernelRidgeRegression_train_def run_defs)

text \<open>
  C2. Let \<open>X\<close> have \<open>n \<ge> 1\<close> rows and \<open>y\<close> one scalar per row, let the kernel return
  Gram matrices of the documented shape and let \<open>np.linalg.solve\<close> return solutions.
  After a successful \<open>KernelRidgeRegression.train(X, y)\<close>, with \<open>K = Kernel(X, X)\<close>, the
  stored \<open>Alpha\<close> is an \<open>n\<times>1\<close> array that satisfies \<open>(K + Lambda\<cdot>n\<cdot>I)\<cdot>Alpha = y\<close>, and the
  stored \<open>Data\<close> is \<open>X\<close>.
\<close>

theorem ridge_train_solves_system:
  assumes "solve_sound solve" and "kernel_contract (KernelRidgeRegression.Kernel self)"
    and "nrows (h X) = n" and "0 < n" and "has_shape y n 1"
    and "KernelRidgeRegression_train solve h self X y = (Inr (), self')"
  shows "\<exists>K a. KernelRidgeRegression.Kernel self (h X) (Some (h X)) = Inr K
           \<and> KernelRidgeRegression.Alpha self' = Some a \<and> has_shape a n 1
           \<and> ridge_system n (\<lambda>i j. K ! i ! j) (KernelRidgeRegression.Lambda self)
                (\<lambda>j. a ! j ! 0) (\<lambda>i. y ! i ! 0)
           \<and> KernelRidgeRegression.Data self' = Some X"
proof (cases "KernelRidgeRegression.Kernel self (h X) (Some (h X))")
  case (Inl e)
  with assms(6) show ?thesis
    by (simp add: KernelRidgeRegression_train_def)
next
  case (Inr K)
  with assms(2,3) have K: "has_shape K n n"
    by (auto simp: kernel_contract_def)
  let ?c = "KernelRidgeRegression.Lambda self * real n"
  let ?g = "\<lambda>i j. K ! i ! j + ?c * (if i = j then 1 else 0)"
  have n: "nrows K = n"
    using K by (rule has_shape_nrows)
  from assms(6) Inr obtain a where a: "solve (fromfunction n n ?g) y = Inr a"
    and s: "self' = self\<lparr>KernelRidgeRegression.Data := Some X,
                          KernelRidgeRegression.Alpha := Some a\<rparr>"
    by (auto simp: KernelRidgeRegression_train_def n regularised_matrix [OF K \<open>0 < n\<close>]
          bind_result_def Let_def split: sum.splits)
  from solve_sound_entries [OF assms(1) a assms(5,4)]
  have "has_shape a n 1" and "\<forall>i<n. (\<Sum>l<n. ?g i l * a ! l ! 0) = y ! i ! 0"
    by simp_all
  with Inr s show ?thesis
    by (simp add: ridge_system_def)
qed

theorem ridge_train_solves_system_witness:
  "KernelRidgeRegression_train small_solve (\<lambda>r. [[1], [2]])
     \<lparr>KernelRidgeRegression.Kernel = linear_kernel, Alpha = None, Data = None, Lambda = 1 / 2\<rparr>
     0 [[2], [5]]
   = (Inr (), \<lparr>KernelRidgeRegression.Kernel = linear_kernel, Alpha = Some [[0], [1]],
               Data = Some 0, Lambda = 1 / 2\<rparr>)
   \<and> (\<exists>K a. linear_kernel [[1], [2]] (Some [[1], [2]]) = Inr K
         \<and> Some [[0], [1]] = Some a \<and> has_shape a 2 1
         \<and> ridge_system 2 (\<lambda>i j. K ! i ! j) (1 / 2) (\<lambda>j. a ! j ! 0) (\<lambda>i. [[2], [5]] ! i ! 0))"
  using ridge_train_solves_system [OF small_solve_sound _ _ _ _ ridge_example_run, of 2]
    kernel_contract_linear ridge_example_run
  by (simp add: has_shape_def nrows_def)

section \<open>Kernel ridge regression: the round trip at Lambda = 0\<close>

lemma unregularised_matrix:
  assumes "has_shape K n n" "0 < n"
  shows "elementwise (+) K (scalar_mult (0 * c) (eye n)) = Inr K"
proof -
  have "fromfunction n n (\<lambda>i j. K ! i ! j + 0 * c * (if i = j then 1 else 0))
      = fromfunction n n (\<lambda>i j. K ! i ! j)"
    by (rule fromfunction_cong) simp
  with has_shape_eq [OF assms(1)] show ?thesis
    by (simp add: regularised_matrix [OF assms])
qed

lemma matmul_entries:
  assumes "matmul A B = Inr C" "has_shape A r k" "has_shape B k c" "0 < r" "0 < k"
    "i < r" "j < c"
  shows "C ! i ! j = (\<Sum>l<k. A ! i ! l * B ! l ! j)"
proof -
  from assms(1) have "C = fromfunction r c (\<lambda>i j. \<Sum>l<k. A ! i ! l * B ! l ! j)"
    by (simp add: matmul_shape [OF assms(2-5)])
  with assms(6,7) show ?thesis
    by (simp add: fromfunction_nth)
qed

lemma matmul_2x2: "matmul [[p, q], [r, s]] [[a, b], [c, d]]
    = Inr [[p * a + q * c, p * b + q * d], [r * a + s * c, r * b + s * d]]"
  by (simp add: matmul_def nrows_def ncols_def fromfunction_def upt_rec lessThan_Suc
        numeral_2_eq_2)

lemma eye_2: "eye 2 = [[1, 0], [0, 1]]"
  by (simp add: eye_def fromfunction_def upt_rec)

text \<open>An invertible \<open>2\<times>2\<close> matrix has a determinant other than 0.\<close>

lemma invertible_2_det:
  assumes "invertible 2 [[a, b], [c, d]]"
  shows "a * d - b * c \<noteq> 0"
proof -
  from assms obtain J where J: "has_shape J 2 2" and m: "matmul J [[a, b], [c, d]] = Inr (eye 2)"
    unfolding invertible_def by blast
  from shape_2_2 [OF J] obtain p q r s where "J = [[p, q], [r, s]]"
    by blast
  with m have e: "p * a + q * c = 1" "p * b + q * d = 0" "r * a + s * c = 0" "r * b + s * d = 1"
    by (simp_all add: matmul_2x2 eye_2)
  have "(p * s - q * r) * (a * d - b * c)
      = (p * a + q * c) * (r * b + s * d) - (p * b + q * d) * (r * a + s * c)"
    by (simp add: algebra_simps)
  also have "\<dots> = 1"
    by (simp add: e)
  finally show ?thesis
    by auto
qed

lemma small_solve_complete_2: "solve_complete 2 small_solve"
  unfolding solve_complete_def
proof (intro allI impI)
  fix A b :: matrix
  assume h: "has_shape A 2 2 \<and> has_shape b 2 1 \<and> invertible 2 A"
  then obtain a b' c d where A: "A = [[a, b'], [c, d]]"
    using shape_2_2 [of A] by blast
  with h have "a * d - b' * c \<noteq> 0"
    using invertible_2_det by blast
  with h show "\<exists>x. small_solve A b = Inr x"
    by (simp add: small_solve_def A has_shape_def Let_def)
qed

text \<open>
  The examples \<open>[[1, 1], [0, 1]]\<close> have the Gram matrix \<open>[[2, 1], [1, 1]]\<close> under the
  linear kernel, with inverse \<open>[[1, -1], [-1, 2]]\<close>.
\<close>

lemma gram_example_invertible: "invertible 2 [[2, 1], [1, 1]]"
  unfolding invertible_def
  by (rule exI [of _ "[[1, - 1], [- 1, 2]]"]) (simp add: matmul_2x2 eye_2 has_shape_def)

lemma gram_example:
  "linear_kernel [[1, 1], [0, 1]] (Some [[1, 1], [0, 1]]) = Inr [[2, 1], [1, 1]]"
  by (simp add: run_defs)

text \<open>
  \<open>predict\<close> on an estimator that holds \<open>Data\<close> and an \<open>n\<times>1\<close> array \<open>Alpha\<close>: for an
  input whose Gram matrix against \<open>Data\<close> has \<open>k \<ge> 1\<close> rows, the result has the \<open>k\<close> rows
  of \<open>K'\<cdot>Alpha\<close>.
\<close>

lemma ridge_predict_rows:
  assumes "KernelRidgeRegression.Data self = Some d"
    and "KernelRidgeRegression.Alpha self = Some a"
    and "KernelRidgeRegression.Kernel self Xn (Some (h d)) = Inr K'"
    and "has_shape K' k n" and "has_shape a n 1" and "0 < k" and "0 < n"
  shows "KernelRidgeRegression_predict h self Xn
         = (Inr (fromfunction k 1 (\<lambda>i j. \<Sum>l<n. K' ! i ! l * a ! l ! 0)), self)"
proof -
  have "fromfunction k 1 (\<lambda>i j. \<Sum>l<n. K' ! i ! l * a ! l ! j)
      = fromfunction k 1 (\<lambda>i j. \<Sum>l<n. K' ! i ! l * a ! l ! 0)"
    by (rule fromfunction_cong) simp
  with matmul_shape [OF assms(4,5,6,7)]
  have "matmul K' a = Inr (fromfunction k 1 (\<lambda>i j. \<Sum>l<n. K' ! i ! l * a ! l ! 0))"
    by simp
  with assms(1-3) show ?thesis
    by (simp add: KernelRidgeRegression_predict_def bind_result_def matmul_attr_def)
qed

text \<open>
  C7. Let \<open>Lambda = 0\<close>, let the Gram matrix \<open>K = Kernel(X, X)\<close> of the \<open>n \<ge> 1\<close> training
  examples be invertible and \<open>y\<close> hold one target per example. Then \<open>train(X, y)\<close>
  succeeds, the stored \<open>Alpha\<close> is an \<open>n\<times>1\<close> array that satisfies \<open>K\<cdot>Alpha = y\<close>, and
  \<open>predict(X)\<close> on the training data returns \<open>y\<close>. On every input \<open>X_new\<close>, \<open>predict\<close>
  returns \<open>Kernel(X_new, Data)\<cdot>Alpha\<close>, one real value per row of the input: with
  \<open>K' = Kernel(X_new, Data)\<close> of shape \<open>(k, n)\<close>, row \<open>i\<close> of the result is
  \<open>\<Sum>\<^sub>l K'\<^sub>i\<^sub>l \<cdot> Alpha\<^sub>l\<close>; and when the kernel raises, \<open>predict\<close> raises the same.
\<close>

theorem ridge_round_trip:
  assumes "solve_sound solve" and "solve_complete n solve"
    and "KernelRidgeRegression.Kernel self (h X) (Some (h X)) = Inr K"
    and "has_shape K n n" and "invertible n K" and "0 < n" and "has_shape y n 1"
    and "KernelRidgeRegression.Lambda self = 0"
  shows "\<exists>a self'. KernelRidgeRegression_train solve h self X y = (Inr (), self')
           \<and> KernelRidgeRegression.Alpha self' = Some a \<and> has_shape a n 1
           \<and> (\<forall>i<n. (\<Sum>j<n. K ! i ! j * a ! j ! 0) = y ! i ! 0)
           \<and> KernelRidgeRegression_predict h self' (h X) = (Inr y, self')
           \<and> (\<forall>Xn K' k. KernelRidgeRegression.Kernel self Xn (Some (h X)) = Inr K'
                  \<and> has_shape K' k n \<and> 0 < k
                \<longrightarrow> KernelRidgeRegression_predict h self' Xn
                    = (Inr (fromfunction k 1 (\<lambda>i j. \<Sum>l<n. K' ! i ! l * a ! l ! 0)), self'))
           \<and> (\<forall>Xn e. KernelRidgeRegression.Kernel self Xn (Some (h X)) = Inl e
                \<longrightarrow> KernelRidgeRegression_predict h self' Xn = (Inl e, self'))"
proof -
  from assms(2,4,5,7) obtain a where a: "solve K y = Inr a"
    unfolding solve_complete_def by blast
  with assms(1) have "has_shape a (nrows y) (ncols y)" and m: "matmul K a = Inr y"
    unfolding solve_sound_def by blast+
  with assms(6,7) have sa: "has_shape a n 1"
    by (simp add: has_shape_nrows has_shape_ncols)
  let ?self' = "self\<lparr>KernelRidgeRegression.Data := Some X,
                       KernelRidgeRegression.Alpha := Some a\<rparr>"
  have n: "nrows K = n"
    using assms(4) by (rule has_shape_nrows)
  have t: "KernelRidgeRegression_train solve h self X y = (Inr (), ?self')"
    using assms(3,8) a unregularised_matrix [OF assms(4,6), of "real n"]
    by (simp add: KernelRidgeRegression_train_def n bind_result_def)
  have p: "KernelRidgeRegression_predict h ?self' (h X) = (Inr y, ?self')"
    using assms(3) m
    by (simp add: KernelRidgeRegression_predict_def bind_result_def matmul_attr_def)
  have e: "\<forall>i<n. (\<Sum>j<n. K ! i ! j * a ! j ! 0) = y ! i ! 0"
    using matmul_entries [OF m assms(4) sa assms(6,6)] by simp
  have new: "KernelRidgeRegression_predict h ?self' Xn
           = (Inr (fromfunction k 1 (\<lambda>i j. \<Sum>l<n. K' ! i ! l * a ! l ! 0)), ?self')"
    if "KernelRidgeRegression.Kernel self Xn (Some (h X)) = Inr K'" "has_shape K' k n" "0 < k"
    for Xn K' k
    using that sa assms(6) by (intro ridge_predict_rows [where d = X]) simp_all
  have raises: "KernelRidgeRegression_predict h ?self' Xn = (Inl e, ?self')"
    if "KernelRidgeRegression.Kernel self Xn (Some (h X)) = Inl e" for Xn e
    using that by (simp add: KernelRidgeRegression_predict_def bind_result_def)
  from t p e sa new raises show ?thesis
    by (intro exI [of _ a] exI [of _ ?self']) simp
qed

text \<open>
  The run: the examples \<open>[[1, 1], [0, 1]]\<close> with targets \<open>[[3], [2]]\<close> give
  \<open>Alpha = [[1], [1]]\<close>. The three new inputs \<open>[[1, 0], [0, 1], [2, 2]]\<close> have the Gram
  matrix \<open>[[1, 0], [1, 1], [4, 2]]\<close> against \<open>Data\<close> and the predictions
  \<open>[[1], [2], [6]]\<close>; an input with three features makes the kernel raise.
\<close>

lemma gram_new_inputs:
  "linear_kernel [[1, 0], [0, 1], [2, 2]] (Some [[1, 1], [0, 1]]) = Inr [[1, 0], [1, 1], [4, 2]]"
  by (simp add: run_defs)

theorem ridge_round_trip_witness:
  "KernelRidgeRegression_train small_solve (\<lambda>r. [[1, 1], [0, 1]])
       \<lparr>KernelRidgeRegression.Kernel = linear_kernel, Alpha = None, Data = None, Lambda = 0\<rparr>
       0 [[3], [2]]
     = (Inr (), \<lparr>KernelRidgeRegression.Kernel = linear_kernel, Alpha = Some [[1], [1]],
                 Data = Some 0, Lambda = 0\<rparr>)
   \<and> KernelRidgeRegression_predict (\<lambda>r. [[1, 1], [0, 1]])
       \<lparr>KernelRidgeRegression.Kernel = linear_kernel, Alpha = Some [[1], [1]], Data = Some 0,
          Lambda = 0\<rparr> [[1, 1], [0, 1]]
     = (Inr [[3], [2]],
        \<lparr>KernelRidgeRegression.Kernel = linear_kernel, Alpha = Some [[1], [1]], Data = Some 0,
           Lambda = 0\<rparr>)
   \<and> KernelRidgeRegression_predict (\<lambda>r. [[1, 1], [0, 1]])
       \<lparr>KernelRidgeRegression.Kernel = linear_kernel, Alpha = Some [[1], [1]], Data = Some 0,
          Lambda = 0\<rparr> [[1, 0], [0, 1], [2, 2]]
     = (Inr [[1], [2], [6]],
        \<lparr>KernelRidgeRegression.Kernel = linear_kernel, Alpha = Some [[1], [1]], Data = Some 0,
           Lambda = 0\<rparr>)
   \<and> KernelRidgeRegression_predict (\<lambda>r. [[1, 1], [0, 1]])
       \<lparr>KernelRidgeRegression.Kernel = linear_kernel, Alpha = Some [[1], [1]], Data = Some 0,
          Lambda = 0\<rparr> [[1, 0, 0]]
     = (Inl ValueError,
        \<lparr>KernelRidgeRegression.Kernel = linear_kernel, Alpha = Some [[1], [1]], Data = Some 0,
           Lambda = 0\<rparr>)"
proof -
  let ?h = "\<lambda>r :: ref. [[1, 1], [0, 1 :: real]]"
  let ?self = "\<lparr>KernelRidgeRegression.Kernel = linear_kernel, Alpha = None, Data = None,
                  Lambda = 0\<rparr>"
  let ?self' = "\<lparr>KernelRidgeRegression.Kernel = linear_kernel, Alpha = Some [[1], [1]],
                   Data = Some 0, Lambda = 0\<rparr>"
  have run: "KernelRidgeRegression_train small_solve ?h ?self 0 [[3], [2]] = (Inr (), ?self')"
    by (simp add: KernelRidgeRegression_train_def run_defs)
  have k: "KernelRidgeRegression.Kernel ?self (?h 0) (Some (?h 0)) = Inr [[2, 1], [1, 1]]"
    using gram_example by simp
  have s: "has_shape [[2, 1], [1, 1 :: real]] 2 2" "has_shape [[3], [2 :: real]] 2 1"
    by (simp_all add: has_shape_def)
  have pos: "0 < (2 :: nat)" and lam: "KernelRidgeRegression.Lambda ?self = 0"
    by simp_all
  from ridge_round_trip [where X = 0 and h = ?h and self = ?self,
      OF small_solve_sound small_solve_complete_2 k s(1) gram_example_invertible pos s(2) lam]
  obtain a self' where t: "KernelRidgeRegression_train small_solve ?h ?self 0 [[3], [2]]
       = (Inr (), self')"
    and a: "KernelRidgeRegression.Alpha self' = Some a"
    and p: "KernelRidgeRegression_predict ?h self' (?h 0) = (Inr [[3], [2]], self')"
    and new: "\<forall>Xn K' k. KernelRidgeRegression.Kernel ?self Xn (Some (?h 0)) = Inr K'
                  \<and> has_shape K' k 2 \<and> 0 < k
                \<longrightarrow> KernelRidgeRegression_predict ?h self' Xn
                    = (Inr (fromfunction k 1 (\<lambda>i j. \<Sum>l<2. K' ! i ! l * a ! l ! 0)), self')"
    and raises: "\<forall>Xn e. KernelRidgeRegression.Kernel ?self Xn (Some (?h 0)) = Inl e
                \<longrightarrow> KernelRidgeRegression_predict ?h self' Xn = (Inl e, self')"
    by blast
  from t run have self': "self' = ?self'"
    by simp
  with a have a': "a = [[1], [1]]"
    by simp
  have "KernelRidgeRegression.Kernel ?self [[1, 0], [0, 1], [2, 2]] (Some (?h 0))
          = Inr [[1, 0], [1, 1], [4, 2]]"
    using gram_new_inputs by simp
  moreover have "has_shape [[1, 0], [1, 1], [4, 2 :: real]] 3 2"
    by (simp add: has_shape_def)
  ultimately have "KernelRidgeRegression_predict ?h self' [[1, 0], [0, 1], [2, 2]]
          = (Inr (fromfunction 3 1 (\<lambda>i j. \<Sum>l<2. [[1, 0], [1, 1], [4, 2]] ! i ! l * a ! l ! 0)),
             self')"
    using new by simp
  then have p3: "KernelRidgeRegression_predict ?h ?self' [[1, 0], [0, 1], [2, 2]]
          = (Inr [[1], [2], [6]], ?self')"
    by (simp add: self' a' has_shape_def fromfunction_def upt_rec lessThan_Suc numeral_2_eq_2)
  have "KernelRidgeRegression.Kernel ?self [[1, 0, 0]] (Some (?h 0)) = Inl ValueError"
    by (simp add: linear_kernel_def ncols_def)
  with raises
  have pe: "KernelRidgeRegression_predict ?h ?self' [[1, 0, 0]] = (Inl ValueError, ?self')"
    by (simp add: self')
  from run p p3 pe show ?thesis
    by (simp add: self')
qed

section \<open>Kernel logistic regression: the training loop\<close>






















section \<open>Kernel logistic regression: the convergence warning\<close>

text \<open>
  The loop ends either by \<open>break\<close>, with \<open>error < tol\<close>, or after its last step
  \<open>max_iter - 1\<close>. So a \<open>train\<close> that returns has printed the warning exactly when the
  last computed \<open>error\<close> is above \<open>tol\<close>, and it has stored the last computed
  \<open>alpha_new\<close> in either case.
\<close>

lemma train_loop_last:
  "int t < mx \<Longrightarrow>
   train_loop body eps (map int [t..<nat mx]) a bound = Inr r \<Longrightarrow>
   \<exists>step a' err. r = Some (step, a', err) \<and> (err < eps \<or> step = mx - 1)"
proof (induction "nat mx - t" arbitrary: t a bound)
  case 0
  then show ?case by simp
next
  case (Suc d)
  from Suc.prems(1) have steps: "map int [t..<nat mx] = int t # map int [Suc t..<nat mx]"
    by (simp add: upt_conv_Cons)
  from Suc.prems(2) obtain a' err where body: "body a = Inr (a', err)"
    by (auto simp: steps split: sum.splits)
  show ?case
  proof (cases "err < eps")
    case True
    with Suc.prems(2) show ?thesis
      by (auto simp: steps body)
  next
    case False
    with Suc.prems(2)
    have rest: "train_loop body eps (map int [Suc t..<nat mx]) a' (Some (int t, a', err)) = Inr r"
      by (simp add: steps body)
    show ?thesis
    proof (cases "int (Suc t) < mx")
      case True
      from Suc.hyps(2) have "d = nat mx - Suc t" by simp
      from Suc.hyps(1) [OF this True rest] show ?thesis .
    next
      case False
      with Suc.prems(1) have "[Suc t..<nat mx] = []" and "int t = mx - 1" by simp_all
      with rest show ?thesis by auto
    qed
  qed
qed

lemma logistic_warning_printed:
  assumes "KernelLogisticRegression_train solve h self X y = (Inr (), out, self')"
  shows "\<exists>K step a err.
           Kernel self (h X) (Some (h X)) = Inr K
         \<and> train_loop (train_step solve (Lambda self) K (nrows K) (eye (nrows K)) y) (tol self)
              (py_range (max_iter self)) (zeros (nrows K) 1) None = Inr (Some (step, a, err))
         \<and> Alpha self' = Some a
         \<and> out = (if tol self < err then [DidNotConverge (max_iter self)] else [])"
proof (cases "Kernel self (h X) (Some (h X))")
  case (Inl e)
  with assms show ?thesis
    by (simp add: KernelLogisticRegression_train_def)
next
  case (Inr K)
  let ?loop = "train_loop (train_step solve (Lambda self) K (nrows K) (eye (nrows K)) y) (tol self)
                 (py_range (max_iter self)) (zeros (nrows K) 1) None"
  from assms Inr obtain step a err where loop: "?loop = Inr (Some (step, a, err))"
    and s: "Alpha self' = Some a"
    and out: "out = (if step = max_iter self - 1 \<and> tol self < err
                     then [DidNotConverge (max_iter self)] else [])"
    by (auto simp: KernelLogisticRegression_train_def Let_def split: sum.splits option.splits)
  have pos: "0 < max_iter self"
  proof (rule ccontr)
    assume "\<not> 0 < max_iter self"
    then have "py_range (max_iter self) = []"
      by (simp add: py_range_def)
    with loop show False by simp
  qed
  from loop have "train_loop (train_step solve (Lambda self) K (nrows K) (eye (nrows K)) y) (tol self)
                    (map int [0..<nat (max_iter self)]) (zeros (nrows K) 1) None
                  = Inr (Some (step, a, err))"
    by (simp add: py_range_def)
  from train_loop_last [OF _ this] pos have "err < tol self \<or> step = max_iter self - 1"
    by auto
  with out have "out = (if tol self < err then [DidNotConverge (max_iter self)] else [])"
    by auto
  with Inr loop s show ?thesis
    by simp
qed

text \<open>
  With \<open>max_iter = 1\<close> and \<open>tol = 1/2\<close> the run above ends after iteration 0 with
  \<open>error = 1 > tol\<close>, and the warning is printed. With \<open>max_iter = 0\<close> the loop body never
  runs and the test after the loop reads the unbound \<open>step\<close>.
\<close>

lemma warning_when_error_above_tol:
  "KernelLogisticRegression_train small_solve (\<lambda>r. [[0]])
       \<lparr>Kernel = linear_kernel, Alpha = None, Data = None, Lambda = 1 / 2, tol = 1 / 2,
          max_iter = 1, threshold = 1 / 2\<rparr> 0 [[1]]
     = (Inr (), [DidNotConverge 1],
        \<lparr>Kernel = linear_kernel, Alpha = Some [[1]], Data = Some 0, Lambda = 1 / 2, tol = 1 / 2,
           max_iter = 1, threshold = 1 / 2\<rparr>)"
  by (simp add: KernelLogisticRegression_train_def run_defs)

lemma unbound_step:
  "KernelLogisticRegression_train small_solve (\<lambda>r. [[0]])
       \<lparr>Kernel = linear_kernel, Alpha = None, Data = None, Lambda = 1 / 2, tol = 1 / 2,
          max_iter = 0, threshold = 1 / 2\<rparr> 0 [[1]]
     = (Inl UnboundLocalError, [],
        \<lparr>Kernel = linear_kernel, Alpha = None, Data = Some 0, Lambda = 1 / 2, tol = 1 / 2,
           max_iter = 0, threshold = 1 / 2\<rparr>)"
  by (simp add: KernelLogisticRegression_train_def run_defs)

text \<open>
  C3 says that the warning is printed if and only if no iteration reached
  \<open>error < tol\<close>. The code breaks this when the last error equals \<open>tol\<close>: with
  \<open>max_iter = 1\<close> and \<open>tol = 1\<close> the only iteration of the run above ends with
  \<open>error = 1\<close>, which is not below \<open>tol\<close>, so the loop does not break; the test of
  models.py:129 is \<open>error > self.tol\<close>, which is false as well, and nothing is printed.
  The last \<open>Alpha\<close> is stored all the same.
\<close>

theorem warning_missed_when_error_equals_tol:
  "train_loop (train_step small_solve (1 / 2) [[0]] 1 (eye 1) [[1]]) 1 (py_range 1) (zeros 1 1) None
     = Inr (Some (0, [[1]], 1))
   \<and> KernelLogisticRegression_train small_solve (\<lambda>r. [[0]])
       \<lparr>Kernel = linear_kernel, Alpha = None, Data = None, Lambda = 1 / 2, tol = 1,
          max_iter = 1, threshold = 1 / 2\<rparr> 0 [[1]]
     = (Inr (), [],
        \<lparr>Kernel = linear_kernel, Alpha = Some [[1]], Data = Some 0, Lambda = 1 / 2, tol = 1,
           max_iter = 1, threshold = 1 / 2\<rparr>)"
  by (simp add: KernelLogisticRegression_train_def run_defs)

section \<open>Kernel logistic regression: predict\<close>

lemma logistic_predict_entries:
  assumes "KernelLogisticRegression_predict h self X = (Inr r, s)"
  shows "list_all (list_all (\<lambda>v. v = 1 \<or> v = - 1)) r"
  using assms
  by (auto simp: KernelLogisticRegression_predict_def bind_result_def Let_def list_all_iff
        split: sum.splits if_splits)

lemma sigmoid_half: "1 / 2 < 1 / (1 + exp (- (1 / 2 :: real)))"
proof -
  have e: "exp (- (1 / 2 :: real)) < 1"
    by simp
  have "0 < 1 + exp (- (1 / 2 :: real))"
    by (simp add: add_pos_pos)
  then have "(1 / 2 < 1 / (1 + exp (- (1 / 2 :: real)))) = (1 / 2 * (1 + exp (- (1 / 2 :: real))) < 1)"
    by (rule pos_less_divide_eq)
  with e show ?thesis
    by simp
qed

text \<open>
  A trained estimator: one example \<open>[[2]]\<close> with label 1, the linear kernel,
  \<open>Lambda = 1\<close>, \<open>tol = 1\<close>. The Gram matrix is \<open>[[4]]\<close>; iteration 0 solves
  \<open>(1/4 \<cdot> 4 + 1) \<cdot> alpha = 1/2\<close> and stops with \<open>error = 1/4\<close>.
\<close>

lemma logistic_example_run:
  "KernelLogisticRegression_train small_solve (\<lambda>r. [[2]])
     \<lparr>Kernel = linear_kernel, Alpha = None, Data = None, Lambda = 1, tol = 1, max_iter = 5,
        threshold = 1 / 2\<rparr> 0 [[1]]
   = (Inr (), [],
      \<lparr>Kernel = linear_kernel, Alpha = Some [[1 / 4]], Data = Some 0, Lambda = 1, tol = 1,
         max_iter = 5, threshold = 1 / 2\<rparr>)"
  by (simp add: KernelLogisticRegression_train_def run_defs)

text \<open>
  C4. On a trained estimator, with \<open>K' = Kernel(X_new, Data)\<close> of shape \<open>(k, n)\<close> and
  \<open>Alpha\<close> of shape \<open>(n, 1)\<close>, \<open>predict(X_new)\<close> returns the \<open>k\<times>1\<close> array whose row \<open>i\<close> is
  \<open>+1\<close> when \<open>1 / (1 + exp (- f\<^sub>i)) > threshold\<close> and \<open>-1\<close> otherwise, for
  \<open>f = K'\<cdot>Alpha\<close>. And whatever the estimator and the input, every entry of an array
  that \<open>predict\<close> returns is \<open>+1\<close> or \<open>-1\<close>.
\<close>

theorem logistic_predict_labels:
  assumes "Data self = Some d" and "Alpha self = Some a"
    and "Kernel self X (Some (h d)) = Inr K'"
    and "has_shape K' k n" and "has_shape a n 1" and "0 < k" and "0 < n"
  shows "KernelLogisticRegression_predict h self X
         = (Inr (fromfunction k 1 (\<lambda>i j.
                   if 1 / (1 + exp (- (\<Sum>l<n. K' ! i ! l * a ! l ! 0))) > threshold self
                   then 1 else - 1)), self)
       \<and> (\<forall>h' self' X' r s. KernelLogisticRegression_predict h' self' X' = (Inr r, s)
              \<longrightarrow> (\<forall>row\<in>set r. \<forall>v\<in>set row. v = 1 \<or> v = - 1))"
proof
  have f: "matmul K' a = Inr (fromfunction k 1 (\<lambda>i j. \<Sum>l<n. K' ! i ! l * a ! l ! j))"
    using assms by (simp add: matmul_shape)
  show "KernelLogisticRegression_predict h self X
         = (Inr (fromfunction k 1 (\<lambda>i j.
                   if 1 / (1 + exp (- (\<Sum>l<n. K' ! i ! l * a ! l ! 0))) > threshold self
                   then 1 else - 1)), self)"
    using assms(1-3)
    by (simp add: KernelLogisticRegression_predict_def bind_result_def matmul_attr_def f
          fromfunction_def)
next
  show "\<forall>h' self' X' r s. KernelLogisticRegression_predict h' self' X' = (Inr r, s)
          \<longrightarrow> (\<forall>row\<in>set r. \<forall>v\<in>set row. v = 1 \<or> v = - 1)"
    using logistic_predict_entries by (auto simp: list_all_iff)
qed

theorem logistic_predict_labels_witness:
  "KernelLogisticRegression_predict (\<lambda>r. [[2]])
     \<lparr>Kernel = linear_kernel, Alpha = Some [[1 / 4]], Data = Some 0, Lambda = 1, tol = 1,
        max_iter = 5, threshold = 1 / 2\<rparr> [[0], [1]]
   = (Inr [[- 1], [1]],
      \<lparr>Kernel = linear_kernel, Alpha = Some [[1 / 4]], Data = Some 0, Lambda = 1, tol = 1,
         max_iter = 5, threshold = 1 / 2\<rparr>)
   \<and> list_all (list_all (\<lambda>v. v = 1 \<or> v = - 1)) [[- 1], [1 :: int]]"
proof -
  let ?self = "\<lparr>Kernel = linear_kernel, Alpha = Some [[1 / 4]], Data = Some 0, Lambda = 1,
                  tol = 1, max_iter = 5, threshold = 1 / 2\<rparr>"
  have k: "Kernel ?self [[0], [1]] (Some [[2]]) = Inr [[0], [2]]"
    by (simp add: run_defs)
  have "has_shape [[0], [2 :: real]] 2 1" and "has_shape [[1 / 4 :: real]] 1 1"
    by (simp_all add: has_shape_def)
  from logistic_predict_labels [of ?self 0 "[[1 / 4]]" "[[0], [1]]" "\<lambda>r. [[2]]", OF _ _ k this]
  have "KernelLogisticRegression_predict (\<lambda>r. [[2]]) ?self [[0], [1]]
          = (Inr (fromfunction 2 1 (\<lambda>i j.
               if 1 / (1 + exp (- (\<Sum>l<1. [[0], [2]] ! i ! l * [[1 / 4]] ! l ! 0))) > threshold ?self
               then 1 else - 1)), ?self)"
    by simp
  then show ?thesis
    using sigmoid_half by (simp add: fromfunction_def upt_rec)
qed

section \<open>What the methods do to the attributes\<close>

text \<open>
  \<open>train\<close> either raises, with \<open>Data\<close> already set to the new \<open>X\<close> and nothing else
  changed, or returns with \<open>Data\<close> and \<open>Alpha\<close> set. \<open>predict\<close> changes nothing.
\<close>

lemma ridge_train_cases:
  "KernelRidgeRegression_train solve h self X y = (r, self') \<Longrightarrow>
     (\<exists>e. r = Inl e \<and> self' = self\<lparr>KernelRidgeRegression.Data := Some X\<rparr>)
   \<or> (\<exists>a. r = Inr () \<and> self' = self\<lparr>KernelRidgeRegression.Data := Some X,
                                         KernelRidgeRegression.Alpha := Some a\<rparr>)"
  by (auto simp: KernelRidgeRegression_train_def Let_def split: sum.splits)

lemma logistic_train_cases:
  "KernelLogisticRegression_train solve h self X y = (r, out, self') \<Longrightarrow>
     (\<exists>e. r = Inl e \<and> out = [] \<and> self' = self\<lparr>Data := Some X\<rparr>)
   \<or> (\<exists>a. r = Inr () \<and> self' = self\<lparr>Data := Some X, Alpha := Some a\<rparr>)"
  by (auto simp: KernelLogisticRegression_train_def Let_def split: sum.splits option.splits)

lemma ridge_predict_state: "snd (KernelRidgeRegression_predict h self X) = self"
  by (simp add: KernelRidgeRegression_predict_def)

lemma logistic_predict_state: "snd (KernelLogisticRegression_predict h self X) = self"
  by (simp add: KernelLogisticRegression_predict_def)

text \<open>
  Runs used below. Address 0 of the store holds \<open>[[2]]\<close>, every other address
  \<open>[[0]]\<close>; \<open>Lambda = 0\<close>. Training on address 0 succeeds; training on address 1 then
  meets the singular system \<open>0 \<cdot> alpha = \<dots>\<close> and raises \<open>LinAlgError\<close>.
\<close>

lemma ridge_first_run:
  "KernelRidgeRegression_train small_solve example_store
     \<lparr>KernelRidgeRegression.Kernel = linear_kernel, Alpha = None, Data = None, Lambda = 0\<rparr>
     0 [[2]]
   = (Inr (), \<lparr>KernelRidgeRegression.Kernel = linear_kernel, Alpha = Some [[1 / 2]],
               Data = Some 0, Lambda = 0\<rparr>)"
  by (simp add: KernelRidgeRegression_train_def run_defs)

lemma ridge_failing_run:
  "KernelRidgeRegression_train small_solve example_store
     \<lparr>KernelRidgeRegression.Kernel = linear_kernel, Alpha = Some [[1 / 2]], Data = Some 0,
        Lambda = 0\<rparr>
     1 [[2]]
   = (Inl LinAlgError, \<lparr>KernelRidgeRegression.Kernel = linear_kernel, Alpha = Some [[1 / 2]],
                         Data = Some 1, Lambda = 0\<rparr>)"
  by (simp add: KernelRidgeRegression_train_def run_defs)

lemma logistic_first_run:
  "KernelLogisticRegression_train small_solve example_store
     \<lparr>Kernel = linear_kernel, Alpha = None, Data = None, Lambda = 0, tol = 1, max_iter = 5,
        threshold = 1 / 2\<rparr> 0 [[1]]
   = (Inr (), [],
      \<lparr>Kernel = linear_kernel, Alpha = Some [[1 / 2]], Data = Some 0, Lambda = 0, tol = 1,
         max_iter = 5, threshold = 1 / 2\<rparr>)"
  by (simp add: KernelLogisticRegression_train_def run_defs)

lemma logistic_failing_run:
  "KernelLogisticRegression_train small_solve example_store
     \<lparr>Kernel = linear_kernel, Alpha = Some [[1 / 2]], Data = Some 0, Lambda = 0, tol = 1,
        max_iter = 5, threshold = 1 / 2\<rparr> 1 [[1]]
   = (Inl LinAlgError, [],
      \<lparr>Kernel = linear_kernel, Alpha = Some [[1 / 2]], Data = Some 1, Lambda = 0, tol = 1,
         max_iter = 5, threshold = 1 / 2\<rparr>)"
  by (simp add: KernelLogisticRegression_train_def run_defs)

section \<open>predict on an untrained estimator\<close>

lemma ridge_predict_untrained:
  "KernelRidgeRegression.Alpha self = None \<Longrightarrow>
     fst (KernelRidgeRegression_predict h self X)
       = (case KernelRidgeRegression.Kernel self X
                 (map_option h (KernelRidgeRegression.Data self)) of
            Inl e \<Rightarrow> Inl e | Inr K \<Rightarrow> Inl ValueError)"
  by (simp add: KernelRidgeRegression_predict_def bind_result_def matmul_attr_def
        split: sum.splits)

lemma logistic_predict_untrained:
  "Alpha self = None \<Longrightarrow>
     fst (KernelLogisticRegression_predict h self X)
       = (case Kernel self X (map_option h (Data self)) of
            Inl e \<Rightarrow> Inl e | Inr K \<Rightarrow> Inl ValueError)"
  by (simp add: KernelLogisticRegression_predict_def bind_result_def matmul_attr_def
        split: sum.splits)

lemma ridge_untrained_Alpha: "ridge_untrained self \<Longrightarrow> KernelRidgeRegression.Alpha self = None"
proof (induction rule: ridge_untrained.induct)
  case (constructed k lam self out)
  then show ?case by (auto simp: KernelRidgeRegression_init_def)
next
  case (after_reset self)
  show ?case by (simp add: KernelRidgeRegression_reset_def)
next
  case (failed_train self solve h X y e self')
  then show ?case by (auto dest: ridge_train_cases)
next
  case (after_predict self h X r self')
  then show ?case using ridge_predict_state [of h self X] by simp
qed

lemma logistic_untrained_Alpha: "logistic_untrained self \<Longrightarrow> Alpha self = None"
proof (induction rule: logistic_untrained.induct)
  case (constructed k lam t m th self out)
  then show ?case by (auto simp: KernelLogisticRegression_init_def)
next
  case (after_reset self)
  show ?case by (simp add: KernelLogisticRegression_reset_def)
next
  case (failed_train self solve h X y e out self')
  then show ?case by (auto dest: logistic_train_cases)
next
  case (after_predict self h X r self')
  then show ?case using logistic_predict_state [of h self X] by simp
qed

text \<open>
  Untrained estimators used below: a ridge estimator fresh from its constructor, and
  a logistic estimator whose first \<open>train\<close>, on address 1 of the store, met the
  singular system and raised, so that \<open>Data\<close> is set and \<open>Alpha\<close> is still \<open>None\<close>.
\<close>

lemma fresh_ridge_untrained:
  "ridge_untrained \<lparr>KernelRidgeRegression.Kernel = linear_kernel, Alpha = None, Data = None,
                      Lambda = 1 / 10\<rparr>"
  by (rule ridge_untrained.constructed
        [where k = linear_kernel and lam = "1 / 10"
           and out = "[Banner ''Kernel Ridge Regression'']"])
    (simp add: KernelRidgeRegression_init_def)

lemma fresh_logistic_untrained:
  "logistic_untrained \<lparr>Kernel = linear_kernel, Alpha = None, Data = None, Lambda = 0, tol = 1,
                         max_iter = 5, threshold = 1 / 2\<rparr>"
  by (rule logistic_untrained.constructed
        [where k = linear_kernel and lam = 0 and t = 1 and m = 5 and th = "1 / 2"
           and out = "[Banner ''Kernel Logistic Regression'']"])
    (simp add: KernelLogisticRegression_init_def)

lemma logistic_first_train_fails:
  "KernelLogisticRegression_train small_solve example_store
     \<lparr>Kernel = linear_kernel, Alpha = None, Data = None, Lambda = 0, tol = 1, max_iter = 5,
        threshold = 1 / 2\<rparr> 1 [[1]]
   = (Inl LinAlgError, [],
      \<lparr>Kernel = linear_kernel, Alpha = None, Data = Some 1, Lambda = 0, tol = 1,
         max_iter = 5, threshold = 1 / 2\<rparr>)"
  by (simp add: KernelLogisticRegression_train_def run_defs)

lemma failed_logistic_untrained:
  "logistic_untrained \<lparr>Kernel = linear_kernel, Alpha = None, Data = Some 1, Lambda = 0,
                         tol = 1, max_iter = 5, threshold = 1 / 2\<rparr>"
  by (rule logistic_untrained.failed_train
        [OF fresh_logistic_untrained logistic_first_train_fails])

text \<open>
  C5, as amended. For both estimators, \<open>predict\<close> at any point before the first
  successful \<open>train\<close>, or after a \<open>reset\<close> with no successful \<open>train\<close> since, raises and
  returns no prediction, and the exception is determined: it is the exception of
  \<open>Kernel(X, self.Data)\<close> when the kernel raises (\<open>Data\<close> is \<open>None\<close>, or the \<open>X\<close> of a
  \<open>train\<close> that raised), and otherwise the \<open>ValueError\<close> of numpy for the product
  \<open>K @ self.Alpha\<close> with \<open>Alpha = None\<close>. The source raises no \<open>NotTrainedError\<close>:
  \<open>predict\<close> fails with one only if the kernel function itself raises it.
\<close>

theorem predict_untrained_raises:
  "(ridge_untrained self \<longrightarrow>
      fst (KernelRidgeRegression_predict h self X)
        = (case KernelRidgeRegression.Kernel self X
                  (map_option h (KernelRidgeRegression.Data self)) of
             Inl e \<Rightarrow> Inl e | Inr K \<Rightarrow> Inl ValueError)
      \<and> (KernelRidgeRegression.Kernel self X (map_option h (KernelRidgeRegression.Data self))
             \<noteq> Inl NotTrainedError
           \<longrightarrow> fst (KernelRidgeRegression_predict h self X) \<noteq> Inl NotTrainedError))
   \<and> (logistic_untrained self2 \<longrightarrow>
      fst (KernelLogisticRegression_predict h2 self2 X2)
        = (case Kernel self2 X2 (map_option h2 (Data self2)) of
             Inl e \<Rightarrow> Inl e | Inr K \<Rightarrow> Inl ValueError)
      \<and> (Kernel self2 X2 (map_option h2 (Data self2)) \<noteq> Inl NotTrainedError
           \<longrightarrow> fst (KernelLogisticRegression_predict h2 self2 X2) \<noteq> Inl NotTrainedError))"
proof (intro conjI impI)
  assume u: "ridge_untrained self"
  show r: "fst (KernelRidgeRegression_predict h self X)
        = (case KernelRidgeRegression.Kernel self X
                  (map_option h (KernelRidgeRegression.Data self)) of
             Inl e \<Rightarrow> Inl e | Inr K \<Rightarrow> Inl ValueError)"
    by (rule ridge_predict_untrained [OF ridge_untrained_Alpha [OF u]])
  assume "KernelRidgeRegression.Kernel self X (map_option h (KernelRidgeRegression.Data self))
             \<noteq> Inl NotTrainedError"
  with r show "fst (KernelRidgeRegression_predict h self X) \<noteq> Inl NotTrainedError"
    by (auto split: sum.splits)
next
  assume u: "logistic_untrained self2"
  show r: "fst (KernelLogisticRegression_predict h2 self2 X2)
        = (case Kernel self2 X2 (map_option h2 (Data self2)) of
             Inl e \<Rightarrow> Inl e | Inr K \<Rightarrow> Inl ValueError)"
    by (rule logistic_predict_untrained [OF logistic_untrained_Alpha [OF u]])
  assume "Kernel self2 X2 (map_option h2 (Data self2)) \<noteq> Inl NotTrainedError"
  with r show "fst (KernelLogisticRegression_predict h2 self2 X2) \<noteq> Inl NotTrainedError"
    by (auto split: sum.splits)
qed

theorem predict_untrained_raises_witness:
  "fst (KernelRidgeRegression_predict example_store
          \<lparr>KernelRidgeRegression.Kernel = linear_kernel, Alpha = None, Data = None,
             Lambda = 1 / 10\<rparr> [[1]]) = Inl AttributeError
   \<and> fst (KernelRidgeRegression_predict example_store
          \<lparr>KernelRidgeRegression.Kernel = linear_kernel, Alpha = None, Data = None,
             Lambda = 1 / 10\<rparr> [[1]]) \<noteq> Inl NotTrainedError
   \<and> fst (KernelLogisticRegression_predict example_store
          \<lparr>Kernel = linear_kernel, Alpha = None, Data = Some 1, Lambda = 0, tol = 1,
             max_iter = 5, threshold = 1 / 2\<rparr> [[1]]) = Inl ValueError
   \<and> fst (KernelLogisticRegression_predict example_store
          \<lparr>Kernel = linear_kernel, Alpha = None, Data = Some 1, Lambda = 0, tol = 1,
             max_iter = 5, threshold = 1 / 2\<rparr> [[1]]) \<noteq> Inl NotTrainedError"
proof -
  let ?r = "\<lparr>KernelRidgeRegression.Kernel = linear_kernel, Alpha = None, Data = None,
               Lambda = 1 / 10\<rparr>"
  let ?l = "\<lparr>Kernel = linear_kernel, Alpha = None, Data = Some 1, Lambda = 0, tol = 1,
               max_iter = 5, threshold = 1 / 2\<rparr>"
  from predict_untrained_raises [of ?r example_store "[[1]]" ?l example_store "[[1]]"]
    fresh_ridge_untrained failed_logistic_untrained
  show ?thesis
    by (simp add: run_defs)
qed

theorem predict_untrained_counterexample:
  "KernelRidgeRegression_init linear_kernel (1 / 10)
     = Inr (\<lparr>KernelRidgeRegression.Kernel = linear_kernel, Alpha = None, Data = None,
              Lambda = 1 / 10\<rparr>, [Banner ''Kernel Ridge Regression''])
   \<and> fst (KernelRidgeRegression_predict example_store
            \<lparr>KernelRidgeRegression.Kernel = linear_kernel, Alpha = None, Data = None,
               Lambda = 1 / 10\<rparr> [[1]]) = Inl AttributeError
   \<and> fst (KernelRidgeRegression_predict example_store
            \<lparr>KernelRidgeRegression.Kernel = linear_kernel, Alpha = None, Data = None,
               Lambda = 1 / 10\<rparr> [[1]]) \<noteq> Inl NotTrainedError
   \<and> fst (KernelLogisticRegression_predict example_store
            (KernelLogisticRegression_reset
               \<lparr>Kernel = linear_kernel, Alpha = Some [[1 / 2]], Data = Some 0, Lambda = 0,
                  tol = 1, max_iter = 5, threshold = 1 / 2\<rparr>) [[1]]) = Inl AttributeError
   \<and> fst (KernelLogisticRegression_predict example_store
            (KernelLogisticRegression_reset
               \<lparr>Kernel = linear_kernel, Alpha = Some [[1 / 2]], Data = Some 0, Lambda = 0,
                  tol = 1, max_iter = 5, threshold = 1 / 2\<rparr>) [[1]]) \<noteq> Inl NotTrainedError"
  by (simp add: KernelRidgeRegression_init_def KernelRidgeRegression_predict_def
        KernelLogisticRegression_reset_def KernelLogisticRegression_predict_def
        linear_kernel_def bind_result_def)

section \<open>A train that raises\<close>

text \<open>
  C6, as amended. For both estimators, when \<open>train(X, y)\<close> raises, the stored \<open>Alpha\<close>
  and the configuration are as they were before the call, and \<open>Data\<close> is the new \<open>X\<close>:
  \<open>self.Data = X\<close> is the first statement of \<open>train\<close>, so a failed \<open>train\<close> on a trained
  estimator leaves the new \<open>Data\<close> beside the old \<open>Alpha\<close>.
\<close>

theorem failed_train_keeps_Alpha_not_Data:
  "(KernelRidgeRegression_train solve h self X y = (Inl e, self') \<longrightarrow>
      self' = self\<lparr>KernelRidgeRegression.Data := Some X\<rparr>)
   \<and> (KernelLogisticRegression_train solve2 h2 self2 X2 y2 = (Inl e2, out, self2') \<longrightarrow>
      self2' = self2\<lparr>Data := Some X2\<rparr>)"
  by (auto dest: ridge_train_cases logistic_train_cases)

theorem failed_train_keeps_Alpha_not_Data_witness:
  "(\<exists>self'. KernelRidgeRegression_train small_solve example_store
        \<lparr>KernelRidgeRegression.Kernel = linear_kernel, Alpha = Some [[1 / 2]], Data = Some 0,
           Lambda = 0\<rparr> 1 [[2]] = (Inl LinAlgError, self')
      \<and> self' = \<lparr>KernelRidgeRegression.Kernel = linear_kernel, Alpha = Some [[1 / 2]],
                   Data = Some 0, Lambda = 0\<rparr>\<lparr>KernelRidgeRegression.Data := Some 1\<rparr>)
   \<and> (\<exists>out self'. KernelLogisticRegression_train small_solve example_store
        \<lparr>Kernel = linear_kernel, Alpha = Some [[1 / 2]], Data = Some 0, Lambda = 0, tol = 1,
           max_iter = 5, threshold = 1 / 2\<rparr> 1 [[1]] = (Inl LinAlgError, out, self')
      \<and> self' = \<lparr>Kernel = linear_kernel, Alpha = Some [[1 / 2]], Data = Some 0, Lambda = 0,
                   tol = 1, max_iter = 5, threshold = 1 / 2\<rparr>\<lparr>Data := Some 1\<rparr>)"
  using failed_train_keeps_Alpha_not_Data [THEN conjunct1, rule_format, OF ridge_failing_run]
    failed_train_keeps_Alpha_not_Data [THEN conjunct2, rule_format, OF logistic_failing_run]
    ridge_failing_run logistic_failing_run
  by (simp del: One_nat_def)

theorem failed_train_counterexample:
  "KernelRidgeRegression_train small_solve example_store
       \<lparr>KernelRidgeRegression.Kernel = linear_kernel, Alpha = None, Data = None, Lambda = 0\<rparr>
       0 [[2]]
     = (Inr (), \<lparr>KernelRidgeRegression.Kernel = linear_kernel, Alpha = Some [[1 / 2]],
                 Data = Some 0, Lambda = 0\<rparr>)
   \<and> KernelRidgeRegression_train small_solve example_store
       \<lparr>KernelRidgeRegression.Kernel = linear_kernel, Alpha = Some [[1 / 2]], Data = Some 0,
          Lambda = 0\<rparr> 1 [[2]]
     = (Inl LinAlgError, \<lparr>KernelRidgeRegression.Kernel = linear_kernel, Alpha = Some [[1 / 2]],
                           Data = Some 1, Lambda = 0\<rparr>)
   \<and> snd (KernelRidgeRegression_train small_solve example_store
       \<lparr>KernelRidgeRegression.Kernel = linear_kernel, Alpha = Some [[1 / 2]], Data = Some 0,
          Lambda = 0\<rparr> 1 [[2]])
     \<noteq> \<lparr>KernelRidgeRegression.Kernel = linear_kernel, Alpha = Some [[1 / 2]], Data = Some 0,
          Lambda = 0\<rparr>
   \<and> KernelLogisticRegression_train small_solve example_store
       \<lparr>Kernel = linear_kernel, Alpha = None, Data = None, Lambda = 0, tol = 1, max_iter = 5,
          threshold = 1 / 2\<rparr> 0 [[1]]
     = (Inr (), [],
        \<lparr>Kernel = linear_kernel, Alpha = Some [[1 / 2]], Data = Some 0, Lambda = 0, tol = 1,
           max_iter = 5, threshold = 1 / 2\<rparr>)
   \<and> KernelLogisticRegression_train small_solve example_store
       \<lparr>Kernel = linear_kernel, Alpha = Some [[1 / 2]], Data = Some 0, Lambda = 0, tol = 1,
          max_iter = 5, threshold = 1 / 2\<rparr> 1 [[1]]
     = (Inl LinAlgError, [],
        \<lparr>Kernel = linear_kernel, Alpha = Some [[1 / 2]], Data = Some 1, Lambda = 0, tol = 1,
           max_iter = 5, threshold = 1 / 2\<rparr>)
   \<and> snd (snd (KernelLogisticRegression_train small_solve example_store
       \<lparr>Kernel = linear_kernel, Alpha = Some [[1 / 2]], Data = Some 0, Lambda = 0, tol = 1,
          max_iter = 5, threshold = 1 / 2\<rparr> 1 [[1]]))
     \<noteq> \<lparr>Kernel = linear_kernel, Alpha = Some [[1 / 2]], Data = Some 0, Lambda = 0, tol = 1,
          max_iter = 5, threshold = 1 / 2\<rparr>"
  by (simp add: ridge_first_run ridge_failing_run logistic_first_run logistic_failing_run
        del: One_nat_def)

section \<open>The constructors\<close>

text \<open>
  C8, as amended. Neither constructor checks its arguments or raises: for every
  kernel and all values of \<open>Lambda\<close>, \<open>tol\<close>, \<open>max_iter\<close> and \<open>threshold\<close>, valid or not,
  it returns an untrained estimator that holds them as given.
\<close>

theorem init_never_raises:
  "(\<exists>self out. KernelRidgeRegression_init k lam = Inr (self, out)
       \<and> KernelRidgeRegression.Kernel self = k \<and> KernelRidgeRegression.Lambda self = lam
       \<and> KernelRidgeRegression.Alpha self = None \<and> KernelRidgeRegression.Data self = None)
   \<and> (\<exists>self out. KernelLogisticRegression_init k lam t m th = Inr (self, out)
       \<and> Kernel self = k \<and> Lambda self = lam \<and> tol self = t \<and> max_iter self = m
       \<and> threshold self = th \<and> Alpha self = None \<and> Data self = None)"
  by (simp add: KernelRidgeRegression_init_def KernelLogisticRegression_init_def)

theorem init_counterexample:
  "KernelRidgeRegression_init linear_kernel (- 1) \<noteq> Inl ConfigError
   \<and> KernelLogisticRegression_init linear_kernel (- 1) 0 0 2 \<noteq> Inl ConfigError"
  by (simp add: KernelRidgeRegression_init_def KernelLogisticRegression_init_def)

section \<open>Data is the caller's array\<close>

lemma ridge_predict_reads_store:
  "KernelRidgeRegression.Data self = Some X \<Longrightarrow>
     KernelRidgeRegression_predict h self Xn = KernelRidgeRegression_predict (\<lambda>r. h X) self Xn"
  by (simp add: KernelRidgeRegression_predict_def)

lemma logistic_predict_reads_store:
  "Data self = Some X \<Longrightarrow>
     KernelLogisticRegression_predict h self Xn
       = KernelLogisticRegression_predict (\<lambda>r. h X) self Xn"
  by (simp add: KernelLogisticRegression_predict_def)

text \<open>
  C9, as amended. After a successful \<open>train(X, y)\<close> the stored \<open>Data\<close> is the caller's
  array \<open>X\<close> itself, not a copy of it: \<open>predict\<close> reads the contents \<open>X\<close> has when
  \<open>predict\<close> is called, so what the caller writes into \<open>X\<close> after \<open>train\<close> is seen by
  \<open>Data\<close> and by later predictions.
\<close>

theorem train_stores_reference:
  "(KernelRidgeRegression_train solve h self X y = (Inr (), self') \<longrightarrow>
      KernelRidgeRegression.Data self' = Some X
      \<and> (\<forall>h' Xn. KernelRidgeRegression_predict h' self' Xn
                   = KernelRidgeRegression_predict (\<lambda>r. h' X) self' Xn))
   \<and> (KernelLogisticRegression_train solve2 h2 self2 X2 y2 = (Inr (), out, self2') \<longrightarrow>
      Data self2' = Some X2
      \<and> (\<forall>h' Xn. KernelLogisticRegression_predict h' self2' Xn
                   = KernelLogisticRegression_predict (\<lambda>r. h' X2) self2' Xn))"
proof (intro conjI impI)
  assume "KernelRidgeRegression_train solve h self X y = (Inr (), self')"
  then show d: "KernelRidgeRegression.Data self' = Some X"
    by (auto dest: ridge_train_cases)
  show "\<forall>h' Xn. KernelRidgeRegression_predict h' self' Xn
                   = KernelRidgeRegression_predict (\<lambda>r. h' X) self' Xn"
    using ridge_predict_reads_store [OF d] by blast
next
  assume "KernelLogisticRegression_train solve2 h2 self2 X2 y2 = (Inr (), out, self2')"
  then show d: "Data self2' = Some X2"
    by (auto dest: logistic_train_cases)
  show "\<forall>h' Xn. KernelLogisticRegression_predict h' self2' Xn
                   = KernelLogisticRegression_predict (\<lambda>r. h' X2) self2' Xn"
    using logistic_predict_reads_store [OF d] by blast
qed

theorem train_stores_reference_witness:
  "KernelRidgeRegression_predict (example_store(0 := [[3]]))
       \<lparr>KernelRidgeRegression.Kernel = linear_kernel, Alpha = Some [[1 / 2]], Data = Some 0,
          Lambda = 0\<rparr> [[1]]
     = KernelRidgeRegression_predict (\<lambda>r. [[3]])
         \<lparr>KernelRidgeRegression.Kernel = linear_kernel, Alpha = Some [[1 / 2]], Data = Some 0,
            Lambda = 0\<rparr> [[1]]
   \<and> KernelLogisticRegression_predict (example_store(0 := [[3]]))
       \<lparr>Kernel = linear_kernel, Alpha = Some [[1 / 2]], Data = Some 0, Lambda = 0, tol = 1,
          max_iter = 5, threshold = 1 / 2\<rparr> [[1]]
     = KernelLogisticRegression_predict (\<lambda>r. [[3]])
         \<lparr>Kernel = linear_kernel, Alpha = Some [[1 / 2]], Data = Some 0, Lambda = 0, tol = 1,
            max_iter = 5, threshold = 1 / 2\<rparr> [[1]]"
proof -
  from train_stores_reference [THEN conjunct1, rule_format, OF ridge_first_run]
  have 1: "KernelRidgeRegression_predict (example_store(0 := [[3]]))
       \<lparr>KernelRidgeRegression.Kernel = linear_kernel, Alpha = Some [[1 / 2]], Data = Some 0,
          Lambda = 0\<rparr> [[1]]
     = KernelRidgeRegression_predict (\<lambda>r. (example_store(0 := [[3]])) 0)
         \<lparr>KernelRidgeRegression.Kernel = linear_kernel, Alpha = Some [[1 / 2]], Data = Some 0,
            Lambda = 0\<rparr> [[1]]"
    by blast
  from train_stores_reference [THEN conjunct2, rule_format, OF logistic_first_run]
  have 2: "KernelLogisticRegression_predict (example_store(0 := [[3]]))
       \<lparr>Kernel = linear_kernel, Alpha = Some [[1 / 2]], Data = Some 0, Lambda = 0, tol = 1,
          max_iter = 5, threshold = 1 / 2\<rparr> [[1]]
     = KernelLogisticRegression_predict (\<lambda>r. (example_store(0 := [[3]])) 0)
         \<lparr>Kernel = linear_kernel, Alpha = Some [[1 / 2]], Data = Some 0, Lambda = 0, tol = 1,
            max_iter = 5, threshold = 1 / 2\<rparr> [[1]]"
    by blast
  from 1 2 show ?thesis
    by simp
qed

theorem train_stores_reference_counterexample:
  "KernelRidgeRegression_train small_solve example_store
       \<lparr>KernelRidgeRegression.Kernel = linear_kernel, Alpha = None, Data = None, Lambda = 0\<rparr>
       0 [[2]]
     = (Inr (), \<lparr>KernelRidgeRegression.Kernel = linear_kernel, Alpha = Some [[1 / 2]],
                 Data = Some 0, Lambda = 0\<rparr>)
   \<and> fst (KernelRidgeRegression_predict example_store
            \<lparr>KernelRidgeRegression.Kernel = linear_kernel, Alpha = Some [[1 / 2]],
               Data = Some 0, Lambda = 0\<rparr> [[1]]) = Inr [[1]]
   \<and> fst (KernelRidgeRegression_predict (example_store(0 := [[3]]))
            \<lparr>KernelRidgeRegression.Kernel = linear_kernel, Alpha = Some [[1 / 2]],
               Data = Some 0, Lambda = 0\<rparr> [[1]]) = Inr [[3 / 2]]
   \<and> fst (KernelLogisticRegression_predict example_store
            \<lparr>Kernel = linear_kernel, Alpha = Some [[1 / 2]], Data = Some 0, Lambda = 0, tol = 1,
               max_iter = 5, threshold = 1 / 2\<rparr> [[1 / 2]]) = Inr [[1]]
   \<and> fst (KernelLogisticRegression_predict (example_store(0 := [[0]]))
            \<lparr>Kernel = linear_kernel, Alpha = Some [[1 / 2]], Data = Some 0, Lambda = 0, tol = 1,
               max_iter = 5, threshold = 1 / 2\<rparr> [[1 / 2]]) = Inr [[- 1]]"
  using sigmoid_half
  by (simp add: ridge_first_run KernelRidgeRegression_predict_def
        KernelLogisticRegression_predict_def run_defs)

section \<open>The configuration is never changed\<close>

lemma ridge_call_config: "ridge_config (ridge_call solve h c self) = ridge_config self"
proof (cases c)
  case (Train X y)
  obtain r self' where t: "KernelRidgeRegression_train solve h self X y = (r, self')"
    by (cases "KernelRidgeRegression_train solve h self X y")
  from ridge_train_cases [OF t] show ?thesis
    by (auto simp: ridge_call_def Train t ridge_config_def)
next
  case (Predict X)
  then show ?thesis
    by (simp add: ridge_call_def ridge_predict_state)
next
  case Reset
  then show ?thesis
    by (simp add: ridge_call_def ridge_config_def KernelRidgeRegression_reset_def)
qed

lemma logistic_call_config: "logistic_config (logistic_call solve h c self) = logistic_config self"
proof (cases c)
  case (Train X y)
  obtain r out self' where t: "KernelLogisticRegression_train solve h self X y = (r, out, self')"
    by (cases "KernelLogisticRegression_train solve h self X y")
  from logistic_train_cases [OF t] show ?thesis
    by (auto simp: logistic_call_def Train t logistic_config_def)
next
  case (Predict X)
  then show ?thesis
    by (simp add: logistic_call_def logistic_predict_state)
next
  case Reset
  then show ?thesis
    by (simp add: logistic_call_def logistic_config_def KernelLogisticRegression_reset_def)
qed

lemma ridge_calls_config: "ridge_config (ridge_calls solve cs self) = ridge_config self"
  by (induction cs arbitrary: self) (auto simp: ridge_call_config)

lemma logistic_calls_config: "logistic_config (logistic_calls solve cs self) = logistic_config self"
  by (induction cs arbitrary: self) (auto simp: logistic_call_config)

text \<open>
  C10. For both estimators, after any sequence of calls of \<open>train\<close>, \<open>predict\<close> and
  \<open>reset\<close> on a constructed estimator, whether they raise or not, the kernel function,
  \<open>Lambda\<close> and, for the logistic estimator, \<open>tol\<close>, \<open>max_iter\<close> and \<open>threshold\<close> are those
  given to the constructor. Only \<open>Data\<close> and \<open>Alpha\<close> change: a \<open>train\<close> that returns has
  set both, \<open>reset\<close> sets both to \<open>None\<close>, and \<open>predict\<close> changes no attribute.
\<close>

theorem configuration_is_never_changed:
  "(KernelRidgeRegression_init k lam = Inr (self0, out0) \<longrightarrow>
      ridge_config (ridge_calls solve cs self0) = (k, lam))
   \<and> (KernelLogisticRegression_init k2 lam2 t m th = Inr (self1, out1) \<longrightarrow>
      logistic_config (logistic_calls solve2 cs2 self1) = (k2, lam2, t, m, th))
   \<and> (KernelRidgeRegression_train solve h self X y = (Inr (), self') \<longrightarrow>
      KernelRidgeRegression.Data self' = Some X \<and> KernelRidgeRegression.Alpha self' \<noteq> None)
   \<and> (KernelLogisticRegression_train solve2 h2 self2 X2 y2 = (Inr (), out, self2') \<longrightarrow>
      Data self2' = Some X2 \<and> Alpha self2' \<noteq> None)
   \<and> KernelRidgeRegression.Data (KernelRidgeRegression_reset self) = None
   \<and> KernelRidgeRegression.Alpha (KernelRidgeRegression_reset self) = None
   \<and> Data (KernelLogisticRegression_reset self2) = None
   \<and> Alpha (KernelLogisticRegression_reset self2) = None
   \<and> snd (KernelRidgeRegression_predict h self Xn) = self
   \<and> snd (KernelLogisticRegression_predict h2 self2 Xn2) = self2"
proof (intro conjI impI)
  assume "KernelRidgeRegression_init k lam = Inr (self0, out0)"
  then have "ridge_config self0 = (k, lam)"
    by (auto simp: KernelRidgeRegression_init_def ridge_config_def)
  then show "ridge_config (ridge_calls solve cs self0) = (k, lam)"
    by (simp add: ridge_calls_config)
next
  assume "KernelLogisticRegression_init k2 lam2 t m th = Inr (self1, out1)"
  then have "logistic_config self1 = (k2, lam2, t, m, th)"
    by (auto simp: KernelLogisticRegression_init_def logistic_config_def)
  then show "logistic_config (logistic_calls solve2 cs2 self1) = (k2, lam2, t, m, th)"
    by (simp add: logistic_calls_config)
next
  assume t: "KernelRidgeRegression_train solve h self X y = (Inr (), self')"
  from ridge_train_cases [OF t] show "KernelRidgeRegression.Data self' = Some X"
    and "KernelRidgeRegression.Alpha self' \<noteq> None"
    by auto
next
  assume t: "KernelLogisticRegression_train solve2 h2 self2 X2 y2 = (Inr (), out, self2')"
  from logistic_train_cases [OF t] show "Data self2' = Some X2" and "Alpha self2' \<noteq> None"
    by auto
qed (simp_all add: KernelRidgeRegression_reset_def KernelLogisticRegression_reset_def
      ridge_predict_state logistic_predict_state)

theorem configuration_is_never_changed_witness:
  "ridge_config (ridge_calls small_solve
       [(example_store, Train 0 [[2]]), (example_store, Predict [[1]]),
        (example_store, Train 1 [[2]]), (example_store, Reset)]
       \<lparr>KernelRidgeRegression.Kernel = linear_kernel, Alpha = None, Data = None, Lambda = 0\<rparr>)
     = (linear_kernel, 0)
   \<and> logistic_config (logistic_calls small_solve
       [(example_store, Train 0 [[1]]), (example_store, Predict [[1]]),
        (example_store, Train 1 [[1]]), (example_store, Reset)]
       \<lparr>Kernel = linear_kernel, Alpha = None, Data = None, Lambda = 0, tol = 1, max_iter = 5,
          threshold = 1 / 2\<rparr>)
     = (linear_kernel, 0, 1, 5, 1 / 2)
   \<and> (\<exists>self'. KernelRidgeRegression_train small_solve example_store
         \<lparr>KernelRidgeRegression.Kernel = linear_kernel, Alpha = None, Data = None, Lambda = 0\<rparr>
         0 [[2]] = (Inr (), self')
       \<and> KernelRidgeRegression.Data self' = Some 0
       \<and> KernelRidgeRegression.Alpha self' \<noteq> None)
   \<and> (\<exists>self'. KernelLogisticRegression_train small_solve example_store
         \<lparr>Kernel = linear_kernel, Alpha = None, Data = None, Lambda = 0, tol = 1, max_iter = 5,
            threshold = 1 / 2\<rparr> 0 [[1]] = (Inr (), [], self')
       \<and> Data self' = Some 0 \<and> Alpha self' \<noteq> None)"
  using configuration_is_never_changed
    [where k = linear_kernel and lam = 0 and solve = small_solve
       and ?self0.0 = "\<lparr>KernelRidgeRegression.Kernel = linear_kernel, Alpha = None, Data = None,
                      Lambda = 0\<rparr>"
       and ?out0.0 = "[Banner ''Kernel Ridge Regression'']"
       and cs = "[(example_store, Train 0 [[2]]), (example_store, Predict [[1]]),
                  (example_store, Train 1 [[2]]), (example_store, Reset)]"
       and ?k2.0 = linear_kernel and ?lam2.0 = 0 and t = 1 and m = 5 and th = "1 / 2"
       and ?solve2.0 = small_solve
       and ?self1.0 = "\<lparr>Kernel = linear_kernel, Alpha = None, Data = None, Lambda = 0, tol = 1,
                      max_iter = 5, threshold = 1 / 2\<rparr>"
       and ?out1.0 = "[Banner ''Kernel Logistic Regression'']"
       and ?cs2.0 = "[(example_store, Train 0 [[1]]), (example_store, Predict [[1]]),
                  (example_store, Train 1 [[1]]), (example_store, Reset)]"
       and h = example_store and X = 0 and y = "[[2]]"
       and self = "\<lparr>KernelRidgeRegression.Kernel = linear_kernel, Alpha = None, Data = None,
                     Lambda = 0\<rparr>"
       and self' = "\<lparr>KernelRidgeRegression.Kernel = linear_kernel, Alpha = Some [[1 / 2]],
                      Data = Some 0, Lambda = 0\<rparr>"
       and ?h2.0 = example_store and ?X2.0 = 0 and ?y2.0 = "[[1]]"
       and ?self2.0 = "\<lparr>Kernel = linear_kernel, Alpha = None, Data = None, Lambda = 0,
                         tol = 1, max_iter = 5, threshold = 1 / 2\<rparr>"
       and out = "[]"
       and ?self2' = "\<lparr>Kernel = linear_kernel, Alpha = Some [[1 / 2]], Data = Some 0,
                        Lambda = 0, tol = 1, max_iter = 5, threshold = 1 / 2\<rparr>"]
    ridge_first_run logistic_first_run
  by (simp add: KernelRidgeRegression_init_def KernelLogisticRegression_init_def)

end
